theory Spec2Isabelle
  imports Main "HOL-Library.Word"
begin

section \<open>Data model of kafka/config.go\<close>

text \<open>
  The file \<^verbatim>\<open>kafka/config.go\<close> turns a \<^verbatim>\<open>Config\<close> value into a sarama client
  configuration. Everything it calls outside the repository (the operating system, the
  PEM, X.509 and TLS packages, sarama, the AWS signer, the OAuth2 token endpoint) is a
  parameter of the model, collected in the record \<open>world\<close>; the functions of the file
  itself are translated branch by branch. Go strings are byte strings (\<open>string\<close>), the
  empty string is \<open>[]\<close>, a nil pointer is \<open>None\<close>. Calls of \<^verbatim>\<open>log.Printf\<close> only write
  a log line and are left out; \<^verbatim>\<open>log.Fatalf\<close> ends the process and is the outcome
  \<open>Fatal\<close>.
\<close>

type_synonym bytes = string

record Config =
  BootstrapServers :: "string list option"
  Timeout :: "64 word"
  CACert :: string
  ClientCert :: string
  ClientCertKey :: string
  ClientCertKeyPassphrase :: string
  KafkaVersion :: string
  TLSEnabled :: bool
  SkipTLSVerify :: bool
  SASLUsername :: string
  SASLPassword :: string
  SASLMechanism :: string
  SASLAWSContainerAuthorizationTokenFile :: string
  SASLAWSContainerCredentialsFullUri :: string
  SASLAWSRegion :: string
  SASLAWSRoleArn :: string
  SASLAWSExternalId :: string
  SASLAWSProfile :: string
  SASLAWSAccessKey :: string
  SASLAWSSecretKey :: string
  SASLAWSToken :: string
  SASLAWSCredsDebug :: bool
  SASLTokenUrl :: string
  SASLAWSSharedConfigFiles :: "string list option"
  SASLOAuthScopes :: "string list"

text \<open>
  The errors of the file, named as the specification's taxonomy names them. A Go error
  here is the opaque error of a library call, so each site that returns one is given the
  name of its kind.
\<close>

datatype error =
    MaterialNotFound
  | InvalidEncoding
  | DecryptionFailed
  | KeyPairMismatch
  | InvalidCA
  | UnsupportedVersion
  | UnknownMechanism
  | MissingRequiredParameter
  | CredentialResolutionFailed

text \<open>A call either ends the process (\<^verbatim>\<open>log.Fatalf\<close>) or returns.\<close>

datatype 'a outcome = Fatal error | Return 'a

subsection \<open>Library types\<close>

record pem_Block =
  Type :: string
  Headers :: "(string \<times> string) list"
  Bytes :: bytes

datatype tls_Certificate = X509KeyPair bytes bytes

datatype x509_CertPool = CertPool "bytes list"

record tls_Config =
  Certificates :: "tls_Certificate list"
  RootCAs :: "x509_CertPool option"
  InsecureSkipVerify :: bool

type_synonym sarama_KafkaVersion = "nat \<times> nat \<times> nat \<times> nat"

datatype HashGeneratorFcn = SHA256 | SHA512

datatype proxy_Dialer = Dialer string

record sarama_AccessToken =
  Token :: string

record oauth2_Token =
  AccessToken :: string
  Expiry :: int

record clientcredentials_Config =
  TokenURL :: string
  ClientID :: string
  ClientSecret :: string
  Scopes :: "string list"

text \<open>Times are nanoseconds on one clock; \<^verbatim>\<open>time.Time{}\<close> is 0.\<close>

record oauthbearerTokenProvider =
  tokenExpiration :: int
  token :: string
  oauth2Config :: clientcredentials_Config

datatype TokenProvider =
    ConfigTokenProvider Config
  | OauthbearerTokenProvider oauthbearerTokenProvider

text \<open>The fields of \<^verbatim>\<open>sarama.Config\<close> that the file assigns.\<close>

record sarama_Config =
  Version :: sarama_KafkaVersion
  ClientID' :: string
  Admin_Timeout :: "64 word"
  Metadata_Full :: bool
  Metadata_AllowAutoTopicCreation :: bool
  Metadata_Timeout :: "64 word"
  Net_Proxy_Enable :: bool
  Net_Proxy_Dialer :: "proxy_Dialer option"
  Net_ReadTimeout :: "64 word"
  Net_WriteTimeout :: "64 word"
  Net_SASL_Enable :: bool
  Net_SASL_Handshake :: bool
  Net_SASL_Mechanism :: string
  Net_SASL_User :: string
  Net_SASL_Password :: string
  Net_SASL_SCRAMClientGeneratorFunc :: "HashGeneratorFcn option"
  Net_SASL_TokenProvider :: "TokenProvider option"
  Net_TLS_Enable :: bool
  Net_TLS_Config :: "tls_Config option"

text \<open>The calls of the AWS MSK IAM signer, with their arguments.\<close>

datatype aws_CredentialsProvider =
    endpointcreds_New string string
  | NewStaticCredentialsProvider string string string

datatype signer_call =
    GenerateAuthTokenFromCredentialsProvider string aws_CredentialsProvider
  | GenerateAuthTokenFromRoleWithExternalId string string string string
  | GenerateAuthTokenFromProfileWithSharedConfigFiles string string "string list"
  | GenerateAuthTokenFromProfile string string
  | GenerateAuthToken string

subsection \<open>The environment\<close>

text \<open>
  What the file reads from outside: \<open>None\<close> is a non-nil Go error (or a nil block for
  \<^verbatim>\<open>pem.Decode\<close>), the boolean of the signer is \<^verbatim>\<open>err != nil\<close>.
\<close>

record world =
  os_Getenv :: "string \<Rightarrow> string"
  os_ReadFile :: "string \<Rightarrow> bytes option"
  pem_Decode :: "bytes \<Rightarrow> pem_Block option"
  pem_EncodeToMemory :: "pem_Block \<Rightarrow> bytes"
  x509_IsEncryptedPEMBlock :: "pem_Block \<Rightarrow> bool"
  x509_DecryptPEMBlock :: "pem_Block \<Rightarrow> bytes \<Rightarrow> bytes option"
  tls_X509KeyPair :: "bytes \<Rightarrow> bytes \<Rightarrow> tls_Certificate option"
  x509_SystemCertPool :: "x509_CertPool option"
  x509_AppendCertsFromPEM :: "x509_CertPool \<Rightarrow> bytes \<Rightarrow> x509_CertPool \<times> bool"
  sarama_NewConfig :: sarama_Config
  sarama_ParseKafkaVersion :: "string \<Rightarrow> sarama_KafkaVersion option"
  proxy_FromEnvironment :: proxy_Dialer
  signer_Generate :: "bool \<Rightarrow> signer_call \<Rightarrow> string \<times> bool"

text \<open>
  The OAuth2 token endpoint behind \<^verbatim>\<open>OAuth2Config.Token\<close>: the answer to the n-th
  exchange (\<open>None\<close> is an error), and the number of exchanges made so far.
\<close>

record token_endpoint =
  responses :: "clientcredentials_Config \<Rightarrow> nat \<Rightarrow> oauth2_Token option"
  exchanges :: nat

section \<open>The functions of kafka/config.go\<close>

subsection \<open>oauthbearerTokenProvider\<close>

definition newOauthbearerTokenProvider :: "clientcredentials_Config \<Rightarrow> oauthbearerTokenProvider" where
  "newOauthbearerTokenProvider cfg = \<lparr>tokenExpiration = 0, token = [], oauth2Config = cfg\<rparr>"

definition time_Second :: int where
  "time_Second = 1000000000"

definition oauth2Config_Token ::
  "clientcredentials_Config \<Rightarrow> token_endpoint \<Rightarrow> oauth2_Token option \<times> token_endpoint" where
  "oauth2Config_Token cfg ep = (responses ep cfg (exchanges ep), ep\<lparr>exchanges := Suc (exchanges ep)\<rparr>)"

text \<open>
  \<^verbatim>\<open>func (o *oauthbearerTokenProvider) Token()\<close>, lines 69 to 89: the current time is
  an input, the provider and the endpoint are passed through.
\<close>

definition oauthbearerTokenProvider_Token ::
  "int \<Rightarrow> oauthbearerTokenProvider \<times> token_endpoint \<Rightarrow>
   (sarama_AccessToken \<times> error option) \<times> oauthbearerTokenProvider \<times> token_endpoint" where
  "oauthbearerTokenProvider_Token currentTime s =
     (case s of (p, ep) \<Rightarrow>
        if token p \<noteq> [] \<and> currentTime < tokenExpiration p + (- 2) * time_Second
        then ((\<lparr>Token = token p\<rparr>, None), p, ep)
        else (case oauth2Config_Token (oauth2Config p) ep of
                (None, ep') \<Rightarrow> ((\<lparr>Token = []\<rparr>, Some CredentialResolutionFailed), p, ep')
              | (Some tok, ep') \<Rightarrow>
                  ((\<lparr>Token = AccessToken tok\<rparr>, None),
                   p\<lparr>token := AccessToken tok, tokenExpiration := Expiry tok\<rparr>, ep')))"

text \<open>A sequence of calls at the given times, the results in order.\<close>

fun Token_calls ::
  "int list \<Rightarrow> oauthbearerTokenProvider \<times> token_endpoint \<Rightarrow>
   (sarama_AccessToken \<times> error option) list \<times> oauthbearerTokenProvider \<times> token_endpoint" where
  "Token_calls [] s = ([], s)"
| "Token_calls (t # ts) s =
     (case oauthbearerTokenProvider_Token t s of
        (r, s') \<Rightarrow> (case Token_calls ts s' of (rs, s'') \<Rightarrow> (r # rs, s'')))"

text \<open>
  The calls of a sequence that do not find a usable cached token, counted as the
  specification words it: a cached token is usable when it is non-empty and its expiry
  is more than two seconds after the current time.
\<close>

definition cached_token_usable :: "int \<Rightarrow> oauthbearerTokenProvider \<Rightarrow> bool" where
  "cached_token_usable currentTime p \<longleftrightarrow>
     token p \<noteq> [] \<and> 2 * time_Second < tokenExpiration p - currentTime"

fun cache_misses :: "int list \<Rightarrow> oauthbearerTokenProvider \<times> token_endpoint \<Rightarrow> nat" where
  "cache_misses [] s = 0"
| "cache_misses (t # ts) s =
     (if cached_token_usable t (fst s) then 0 else 1)
       + cache_misses ts (snd (oauthbearerTokenProvider_Token t s))"

subsection \<open>Config.Token\<close>

text \<open>
  The common tail of every branch, \<^verbatim>\<open>return &sarama.AccessToken{Token: token}, err\<close>,
  after the one signer call of the branch. The signer reads the global
  \<^verbatim>\<open>signer.AwsDebugCreds\<close>, which line 92 has just set. The second component is the
  list of signer calls made.
\<close>

definition signer_invoke ::
  "world \<Rightarrow> Config \<Rightarrow> signer_call \<Rightarrow> (sarama_AccessToken option \<times> error option) \<times> signer_call list" where
  "signer_invoke w c call =
     (case signer_Generate w (SASLAWSCredsDebug c) call of
        (tok, failed) \<Rightarrow>
          ((Some \<lparr>Token = tok\<rparr>, if failed then Some CredentialResolutionFailed else None), [call]))"

definition Config_Token ::
  "world \<Rightarrow> Config \<Rightarrow> (sarama_AccessToken option \<times> error option) \<times> signer_call list" where
  "Config_Token w c =
     (if SASLAWSContainerAuthorizationTokenFile c \<noteq> [] \<and> SASLAWSContainerCredentialsFullUri c \<noteq> [] then
        (case os_ReadFile w (SASLAWSContainerAuthorizationTokenFile c) of
           None \<Rightarrow> ((None, Some CredentialResolutionFailed), [])
         | Some containerAuthorizationToken \<Rightarrow>
             signer_invoke w c
               (GenerateAuthTokenFromCredentialsProvider (SASLAWSRegion c)
                  (endpointcreds_New (SASLAWSContainerCredentialsFullUri c) containerAuthorizationToken)))
      else if SASLAWSRoleArn c \<noteq> [] then
        signer_invoke w c
          (GenerateAuthTokenFromRoleWithExternalId (SASLAWSRegion c) (SASLAWSRoleArn c)
             ''terraform-kafka-provider'' (SASLAWSExternalId c))
      else if SASLAWSProfile c \<noteq> [] then
        (case SASLAWSSharedConfigFiles c of
           Some (f # fs) \<Rightarrow>
             signer_invoke w c
               (GenerateAuthTokenFromProfileWithSharedConfigFiles (SASLAWSRegion c) (SASLAWSProfile c) (f # fs))
         | _ \<Rightarrow>
             signer_invoke w c (GenerateAuthTokenFromProfile (SASLAWSRegion c) (SASLAWSProfile c)))
      else if SASLAWSAccessKey c \<noteq> [] \<and> SASLAWSSecretKey c \<noteq> [] then
        signer_invoke w c
          (GenerateAuthTokenFromCredentialsProvider (SASLAWSRegion c)
             (NewStaticCredentialsProvider (SASLAWSAccessKey c) (SASLAWSSecretKey c) (SASLAWSToken c)))
      else
        signer_invoke w c (GenerateAuthToken (SASLAWSRegion c)))"

subsection \<open>parsePemOrLoadFromFile and newTLSConfig\<close>

text \<open>
  \<^verbatim>\<open>parsePemOrLoadFromFile\<close>, lines 233 to 252. The second component lists the paths
  handed to \<^verbatim>\<open>os.ReadFile\<close>, in order.
\<close>

definition parsePemOrLoadFromFile ::
  "world \<Rightarrow> string \<Rightarrow> (error + pem_Block \<times> bytes) \<times> string list" where
  "parsePemOrLoadFromFile w input =
     (case pem_Decode w input of
        Some inputBlock \<Rightarrow> (Inr (inputBlock, input), [])
      | None \<Rightarrow>
          (case os_ReadFile w input of
             None \<Rightarrow> (Inl MaterialNotFound, [input])
           | Some inputBytes \<Rightarrow>
               (case pem_Decode w inputBytes of
                  None \<Rightarrow> (Inl InvalidEncoding, [input])
                | Some inputBlock \<Rightarrow> (Inr (inputBlock, inputBytes), [input]))))"

text \<open>Lines 270 to 283 of \<^verbatim>\<open>newTLSConfig\<close>: the key bytes given to the pairing.\<close>

definition decryptedKeyBytes :: "world \<Rightarrow> pem_Block \<Rightarrow> bytes \<Rightarrow> string \<Rightarrow> error + bytes" where
  "decryptedKeyBytes w keyBlock keyBytes clientKeyPassphrase =
     (if x509_IsEncryptedPEMBlock w keyBlock then
        (case x509_DecryptPEMBlock w keyBlock clientKeyPassphrase of
           None \<Rightarrow> Inl DecryptionFailed
         | Some plain \<Rightarrow>
             Inr (pem_EncodeToMemory w \<lparr>Type = Type keyBlock, Headers = [], Bytes = plain\<rparr>))
      else Inr keyBytes)"

text \<open>
  Lines 257 to 291 of \<^verbatim>\<open>newTLSConfig\<close>: the client certificate block. \<open>Inl\<close> is an
  early \<^verbatim>\<open>return &tlsConfig, err\<close>, \<open>Inr\<close> the certificates the function goes on with.
\<close>

definition clientCertificates ::
  "world \<Rightarrow> string \<Rightarrow> string \<Rightarrow> string \<Rightarrow> (error + tls_Certificate list) \<times> string list" where
  "clientCertificates w clientCert clientKey clientKeyPassphrase =
     (if clientCert \<noteq> [] \<and> clientKey \<noteq> [] then
        (case parsePemOrLoadFromFile w clientCert of
           (Inl err, r1) \<Rightarrow> (Inl err, r1)
         | (Inr (certBlock, certBytes), r1) \<Rightarrow>
             (case parsePemOrLoadFromFile w clientKey of
                (Inl err, r2) \<Rightarrow> (Inl err, r1 @ r2)
              | (Inr (keyBlock, keyBytes), r2) \<Rightarrow>
                  (case decryptedKeyBytes w keyBlock keyBytes clientKeyPassphrase of
                     Inl err \<Rightarrow> (Inl err, r1 @ r2)
                   | Inr keyBytes' \<Rightarrow>
                       (case tls_X509KeyPair w certBytes keyBytes' of
                          None \<Rightarrow> (Inl KeyPairMismatch, r1 @ r2)
                        | Some cert \<Rightarrow> (Inr [cert], r1 @ r2)))))
      else (Inr [], []))"

definition x509_NewCertPool :: x509_CertPool where
  "x509_NewCertPool = CertPool []"

text \<open>
  \<^verbatim>\<open>newTLSConfig\<close>, lines 254 to 316: the returned pair \<^verbatim>\<open>(*tls.Config, error)\<close> and the
  paths read.
\<close>

definition newTLSConfig ::
  "world \<Rightarrow> string \<Rightarrow> string \<Rightarrow> string \<Rightarrow> string \<Rightarrow> (tls_Config \<times> error option) \<times> string list" where
  "newTLSConfig w clientCert clientKey caCert clientKeyPassphrase =
     (let tlsConfig = \<lparr>Certificates = [], RootCAs = None, InsecureSkipVerify = False\<rparr> in
      case clientCertificates w clientCert clientKey clientKeyPassphrase of
        (Inl err, rs) \<Rightarrow> ((tlsConfig, Some err), rs)
      | (Inr certs, rs) \<Rightarrow>
          (let tlsConfig1 = tlsConfig\<lparr>Certificates := certs\<rparr> in
           if caCert = [] then ((tlsConfig1, None), rs)
           else
             (let caCertPool = (case x509_SystemCertPool w of Some pool \<Rightarrow> pool | None \<Rightarrow> x509_NewCertPool) in
              case parsePemOrLoadFromFile w caCert of
                (Inl err, r3) \<Rightarrow> ((tlsConfig1, Some err), rs @ r3)
              | (Inr (caBlock, caBytes), r3) \<Rightarrow>
                  (case x509_AppendCertsFromPEM w caCertPool caBytes of
                     (pool', ok) \<Rightarrow>
                       if \<not> ok then ((tlsConfig1, Some InvalidCA), rs @ r3)
                       else ((tlsConfig1\<lparr>RootCAs := Some pool'\<rparr>, None), rs @ r3)))))"

subsection \<open>newKafkaConfig\<close>

definition saslEnabled :: "Config \<Rightarrow> bool" where
  "saslEnabled c \<longleftrightarrow>
     SASLUsername c \<noteq> [] \<or> SASLPassword c \<noteq> [] \<or> SASLMechanism c = ''aws-iam''"

definition V2_7_0_0 :: sarama_KafkaVersion where
  "V2_7_0_0 = (2, 7, 0, 0)"

definition SASLTypeOAuth :: string where
  "SASLTypeOAuth = ''OAUTHBEARER''"

definition SASLTypeSCRAMSHA256 :: string where
  "SASLTypeSCRAMSHA256 = ''SCRAM-SHA-256''"

definition SASLTypeSCRAMSHA512 :: string where
  "SASLTypeSCRAMSHA512 = ''SCRAM-SHA-512''"

text \<open>Lines 132 to 140: \<open>None\<close> is the early return with the parse error.\<close>

definition kafkaVersion :: "world \<Rightarrow> Config \<Rightarrow> sarama_KafkaVersion option" where
  "kafkaVersion w c =
     (if KafkaVersion c \<noteq> [] then sarama_ParseKafkaVersion w (KafkaVersion c)
      else Some V2_7_0_0)"

text \<open>Lines 137 to 152: the assignments that do not depend on SASL or TLS.\<close>

definition baseConfig :: "world \<Rightarrow> Config \<Rightarrow> sarama_KafkaVersion \<Rightarrow> sarama_Config" where
  "baseConfig w c version =
     (sarama_NewConfig w)
       \<lparr>Version := version,
        ClientID' := ''terraform-provider-kafka'',
        Admin_Timeout := Timeout c * 1000000000,
        Metadata_Full := True,
        Metadata_AllowAutoTopicCreation := False,
        Metadata_Timeout := Timeout c * 1000000000,
        Net_Proxy_Enable := True,
        Net_Proxy_Dialer := Some (proxy_FromEnvironment w),
        Net_ReadTimeout := Timeout c * 1000000000,
        Net_WriteTimeout := Timeout c * 1000000000\<rparr>"

text \<open>Lines 155 to 191: the switch on the mechanism name.\<close>

definition saslMechanism :: "world \<Rightarrow> Config \<Rightarrow> sarama_Config \<Rightarrow> sarama_Config outcome" where
  "saslMechanism w c k =
     (if SASLMechanism c = ''scram-sha512'' then
        Return (k\<lparr>Net_SASL_SCRAMClientGeneratorFunc := Some SHA512,
                  Net_SASL_Mechanism := SASLTypeSCRAMSHA512\<rparr>)
      else if SASLMechanism c = ''scram-sha256'' then
        Return (k\<lparr>Net_SASL_SCRAMClientGeneratorFunc := Some SHA256,
                  Net_SASL_Mechanism := SASLTypeSCRAMSHA256\<rparr>)
      else if SASLMechanism c = ''aws-iam'' then
        (let region = (if SASLAWSRegion c = [] then os_Getenv w ''AWS_REGION'' else SASLAWSRegion c) in
         if region = [] then Fatal MissingRequiredParameter
         else Return (k\<lparr>Net_SASL_Mechanism := SASLTypeOAuth,
                        Net_SASL_TokenProvider := Some (ConfigTokenProvider c)\<rparr>))
      else if SASLMechanism c = ''oauthbearer'' then
        (let tokenUrl = (if SASLTokenUrl c = [] then os_Getenv w ''TOKEN_URL'' else SASLTokenUrl c) in
         if tokenUrl = [] then Fatal MissingRequiredParameter
         else Return (k\<lparr>Net_SASL_Mechanism := SASLTypeOAuth,
                        Net_SASL_TokenProvider :=
                          Some (OauthbearerTokenProvider (newOauthbearerTokenProvider
                            \<lparr>TokenURL = tokenUrl, ClientID = SASLUsername c,
                             ClientSecret = SASLPassword c, Scopes = SASLOAuthScopes c\<rparr>))\<rparr>))
      else if SASLMechanism c = ''plain'' then Return k
      else Fatal UnknownMechanism)"

text \<open>Lines 154 to 204: the SASL block.\<close>

definition saslConfig :: "world \<Rightarrow> Config \<Rightarrow> sarama_Config \<Rightarrow> sarama_Config outcome" where
  "saslConfig w c k =
     (if saslEnabled c then
        (case saslMechanism w c k of
           Fatal e \<Rightarrow> Fatal e
         | Return k1 \<Rightarrow>
             (let k2 = k1\<lparr>Net_SASL_Enable := True, Net_SASL_Handshake := True\<rparr>;
                  k3 = (if SASLUsername c \<noteq> [] then k2\<lparr>Net_SASL_User := SASLUsername c\<rparr> else k2);
                  k4 = (if SASLPassword c \<noteq> [] then k3\<lparr>Net_SASL_Password := SASLPassword c\<rparr> else k3)
              in Return k4))
      else Return k)"

text \<open>Lines 206 to 222: the TLS block and the final return.\<close>

definition tlsConfig :: "world \<Rightarrow> Config \<Rightarrow> sarama_Config \<Rightarrow> sarama_Config \<times> error option" where
  "tlsConfig w c k =
     (if TLSEnabled c then
        (case fst (newTLSConfig w (ClientCert c) (ClientCertKey c) (CACert c) (ClientCertKeyPassphrase c)) of
           (t, Some err) \<Rightarrow> (k, Some err)
         | (t, None) \<Rightarrow>
             (k\<lparr>Net_TLS_Enable := True,
                Net_TLS_Config := Some (t\<lparr>InsecureSkipVerify := SkipTLSVerify c\<rparr>)\<rparr>, None))
      else (k, None))"

text \<open>\<^verbatim>\<open>func (c *Config) newKafkaConfig()\<close>, lines 129 to 223.\<close>

definition newKafkaConfig :: "world \<Rightarrow> Config \<Rightarrow> (sarama_Config \<times> error option) outcome" where
  "newKafkaConfig w c =
     (case kafkaVersion w c of
        None \<Rightarrow> Return (sarama_NewConfig w, Some UnsupportedVersion)
      | Some version \<Rightarrow>
          (case saslConfig w c (baseConfig w c version) of
             Fatal e \<Rightarrow> Fatal e
           | Return k \<Rightarrow> Return (tlsConfig w c k)))"

definition NewTLSConfig ::
  "world \<Rightarrow> string \<Rightarrow> string \<Rightarrow> string \<Rightarrow> string \<Rightarrow> (tls_Config \<times> error option) \<times> string list" where
  "NewTLSConfig w clientCert clientKey caCert clientKeyPassphrase =
     newTLSConfig w clientCert clientKey caCert clientKeyPassphrase"

subsection \<open>copyWithMaskedSensitiveValues\<close>

text \<open>Lines 318 to 347: the positional struct literal, field by field.\<close>

definition copyWithMaskedSensitiveValues :: "Config \<Rightarrow> Config" where
  "copyWithMaskedSensitiveValues config =
     \<lparr>BootstrapServers = BootstrapServers config,
      Timeout = Timeout config,
      CACert = CACert config,
      ClientCert = ClientCert config,
      ClientCertKey = ''*****'',
      ClientCertKeyPassphrase = ''*****'',
      KafkaVersion = KafkaVersion config,
      TLSEnabled = TLSEnabled config,
      SkipTLSVerify = SkipTLSVerify config,
      SASLUsername = SASLUsername config,
      SASLPassword = ''*****'',
      SASLMechanism = SASLMechanism config,
      SASLAWSContainerAuthorizationTokenFile = SASLAWSContainerAuthorizationTokenFile config,
      SASLAWSContainerCredentialsFullUri = SASLAWSContainerCredentialsFullUri config,
      SASLAWSRegion = SASLAWSRegion config,
      SASLAWSRoleArn = SASLAWSRoleArn config,
      SASLAWSExternalId = ''*****'',
      SASLAWSProfile = SASLAWSProfile config,
      SASLAWSAccessKey = SASLAWSAccessKey config,
      SASLAWSSecretKey = ''*****'',
      SASLAWSToken = SASLAWSToken config,
      SASLAWSCredsDebug = SASLAWSCredsDebug config,
      SASLTokenUrl = SASLTokenUrl config,
      SASLAWSSharedConfigFiles = SASLAWSSharedConfigFiles config,
      SASLOAuthScopes = SASLOAuthScopes config\<rparr>"

section \<open>Concrete environments and configurations\<close>

text \<open>
  One environment in which every library call has a definite answer, used to evaluate
  the functions on concrete inputs. Its file system holds four files; its PEM decoder
  accepts exactly the texts that start with a \<^verbatim>\<open>-----BEGIN \<close> line marker and reads a
  \<^verbatim>\<open>DEK-Info\<close> header off an \<^verbatim>\<open>ENCRYPTED \<close> prefix; every certificate pairs with
  every key but the one that reads \<^verbatim>\<open>MISMATCH\<close>; no environment variable is set.
\<close>

definition files0 :: "(string \<times> bytes) list" where
  "files0 =
     [(''/etc/kafka/client.crt'', ''-----BEGIN CERT''),
      (''/etc/kafka/client.key'', ''-----BEGIN KEY''),
      (''/etc/kafka/notes.txt'', ''not a certificate''),
      (''/var/run/secrets/aws/token'', ''container-token'')]"

definition decode0 :: "bytes \<Rightarrow> pem_Block option" where
  "decode0 s =
     (if take 11 s = ''-----BEGIN '' then
        (if take 10 (drop 11 s) = ''ENCRYPTED '' then
           Some \<lparr>Type = ''PEM'', Headers = [(''DEK-Info'', ''AES-128-CBC'')], Bytes = drop 21 s\<rparr>
         else Some \<lparr>Type = ''PEM'', Headers = [], Bytes = drop 11 s\<rparr>)
      else None)"

definition saramaDefaults0 :: sarama_Config where
  "saramaDefaults0 =
     \<lparr>Version = (2, 1, 0, 0),
      ClientID' = ''sarama'',
      Admin_Timeout = 3000000000,
      Metadata_Full = True,
      Metadata_AllowAutoTopicCreation = True,
      Metadata_Timeout = 0,
      Net_Proxy_Enable = False,
      Net_Proxy_Dialer = None,
      Net_ReadTimeout = 30000000000,
      Net_WriteTimeout = 30000000000,
      Net_SASL_Enable = False,
      Net_SASL_Handshake = True,
      Net_SASL_Mechanism = [],
      Net_SASL_User = [],
      Net_SASL_Password = [],
      Net_SASL_SCRAMClientGeneratorFunc = None,
      Net_SASL_TokenProvider = None,
      Net_TLS_Enable = False,
      Net_TLS_Config = None\<rparr>"

definition world0 :: world where
  "world0 =
     \<lparr>os_Getenv = (\<lambda>name. []),
      os_ReadFile = map_of files0,
      pem_Decode = decode0,
      pem_EncodeToMemory = (\<lambda>b. ''-----BEGIN '' @ Bytes b),
      x509_IsEncryptedPEMBlock = (\<lambda>b. map_of (Headers b) ''DEK-Info'' \<noteq> None),
      x509_DecryptPEMBlock = (\<lambda>b pass. if pass = ''hunter2'' then Some (Bytes b) else None),
      tls_X509KeyPair =
        (\<lambda>cert key. if key = ''-----BEGIN MISMATCH'' then None else Some (X509KeyPair cert key)),
      x509_SystemCertPool = None,
      x509_AppendCertsFromPEM = (\<lambda>pool pem. case pool of CertPool ps \<Rightarrow> (CertPool (ps @ [pem]), True)),
      sarama_NewConfig = saramaDefaults0,
      sarama_ParseKafkaVersion = (\<lambda>s. if s = ''3.6.0'' then Some (3, 6, 0, 0) else None),
      proxy_FromEnvironment = Dialer ''direct'',
      signer_Generate = (\<lambda>debug call. (''signed-token'', False))\<rparr>"

text \<open>The zero value \<^verbatim>\<open>Config{}\<close>.\<close>

definition emptyConfig :: Config where
  "emptyConfig =
     \<lparr>BootstrapServers = None,
      Timeout = 0,
      CACert = [],
      ClientCert = [],
      ClientCertKey = [],
      ClientCertKeyPassphrase = [],
      KafkaVersion = [],
      TLSEnabled = False,
      SkipTLSVerify = False,
      SASLUsername = [],
      SASLPassword = [],
      SASLMechanism = [],
      SASLAWSContainerAuthorizationTokenFile = [],
      SASLAWSContainerCredentialsFullUri = [],
      SASLAWSRegion = [],
      SASLAWSRoleArn = [],
      SASLAWSExternalId = [],
      SASLAWSProfile = [],
      SASLAWSAccessKey = [],
      SASLAWSSecretKey = [],
      SASLAWSToken = [],
      SASLAWSCredsDebug = False,
      SASLTokenUrl = [],
      SASLAWSSharedConfigFiles = None,
      SASLOAuthScopes = []\<rparr>"

text \<open>
  A token endpoint that answers the n-th exchange with the token \<^verbatim>\<open>tok\<close> followed by as
  many plus signs as exchanges were made before, expiring at \<open>100 * n + 10\<close> seconds;
  and the provider the oauthbearer branch installs.
\<close>

definition endpoint0 :: token_endpoint where
  "endpoint0 =
     \<lparr>responses = (\<lambda>cfg n. Some \<lparr>AccessToken = ''tok'' @ replicate n (CHR ''+''),
                                   Expiry = (100 * int n + 10) * time_Second\<rparr>),
      exchanges = 0\<rparr>"

text \<open>A token endpoint that refuses every exchange.\<close>

definition endpointDown :: token_endpoint where
  "endpointDown = \<lparr>responses = (\<lambda>cfg n. None), exchanges = 0\<rparr>"

definition provider0 :: oauthbearerTokenProvider where
  "provider0 =
     newOauthbearerTokenProvider
       \<lparr>TokenURL = ''https://idp/token'', ClientID = ''id'', ClientSecret = ''secret'', Scopes = []\<rparr>"

section \<open>Properties\<close>

subsection \<open>Auxiliary facts\<close>

lemma saslEnabled_iff:
  "saslEnabled c \<longleftrightarrow>
     \<not> (SASLUsername c = [] \<and> SASLPassword c = [] \<and> SASLMechanism c \<noteq> ''aws-iam'')"
  by (auto simp: saslEnabled_def)

lemma world0_simps:
  "os_Getenv world0 name = []"
  "os_ReadFile world0 = map_of files0"
  "pem_Decode world0 = decode0"
  "sarama_NewConfig world0 = saramaDefaults0"
  by (simp_all add: world0_def)

lemma clientCertificates_skip:
  "clientCert = [] \<or> clientKey = [] \<Longrightarrow>
   clientCertificates w clientCert clientKey pp = (Inr [], [])"
  by (auto simp: clientCertificates_def)

lemma newTLSConfig_no_ca:
  "newTLSConfig w clientCert clientKey [] pp =
     (case clientCertificates w clientCert clientKey pp of
        (Inl err, rs) \<Rightarrow> ((\<lparr>Certificates = [], RootCAs = None, InsecureSkipVerify = False\<rparr>, Some err), rs)
      | (Inr certs, rs) \<Rightarrow> ((\<lparr>Certificates = certs, RootCAs = None, InsecureSkipVerify = False\<rparr>, None), rs))"
  by (simp add: newTLSConfig_def split: prod.splits sum.splits)

lemma kafkaVersion_None_iff:
  "kafkaVersion w c = None \<longleftrightarrow>
     KafkaVersion c \<noteq> [] \<and> sarama_ParseKafkaVersion w (KafkaVersion c) = None"
  by (simp add: kafkaVersion_def)

lemma parsePemOrLoadFromFile_errors:
  "parsePemOrLoadFromFile w input = (Inl e, rs) \<Longrightarrow> e = MaterialNotFound \<or> e = InvalidEncoding"
  by (auto simp: parsePemOrLoadFromFile_def split: option.splits)

lemma clientCertificates_errors:
  "clientCertificates w cc ck pp = (Inl e, rs) \<Longrightarrow>
     e = MaterialNotFound \<or> e = InvalidEncoding \<or> e = DecryptionFailed \<or> e = KeyPairMismatch"
  by (auto simp: clientCertificates_def decryptedKeyBytes_def
      dest: parsePemOrLoadFromFile_errors
      split: if_splits prod.splits sum.splits option.splits)

lemma newTLSConfig_errors:
  "newTLSConfig w cc ck ca pp = ((t, Some e), rs) \<Longrightarrow> e \<noteq> UnsupportedVersion"
  by (auto simp: newTLSConfig_def Let_def
      dest: clientCertificates_errors parsePemOrLoadFromFile_errors
      split: if_splits prod.splits sum.splits option.splits)

lemma tlsConfig_errors:
  "snd (tlsConfig w c k) \<noteq> Some UnsupportedVersion"
proof (cases "newTLSConfig w (ClientCert c) (ClientCertKey c) (CACert c) (ClientCertKeyPassphrase c)")
  case (Pair r rs)
  then show ?thesis
    by (cases r) (auto simp: tlsConfig_def dest: newTLSConfig_errors split: option.splits)
qed

lemma tlsConfig_keeps:
  "Version (fst (tlsConfig w c k)) = Version k"
  "Net_SASL_Enable (fst (tlsConfig w c k)) = Net_SASL_Enable k"
  "Net_SASL_Handshake (fst (tlsConfig w c k)) = Net_SASL_Handshake k"
  "Net_SASL_Mechanism (fst (tlsConfig w c k)) = Net_SASL_Mechanism k"
  "Net_SASL_User (fst (tlsConfig w c k)) = Net_SASL_User k"
  "Net_SASL_Password (fst (tlsConfig w c k)) = Net_SASL_Password k"
  "Net_SASL_SCRAMClientGeneratorFunc (fst (tlsConfig w c k)) = Net_SASL_SCRAMClientGeneratorFunc k"
  "Net_SASL_TokenProvider (fst (tlsConfig w c k)) = Net_SASL_TokenProvider k"
  by (simp_all add: tlsConfig_def split: prod.splits option.splits)

lemma baseConfig_keeps:
  "Version (baseConfig w c v) = v"
  "Net_SASL_Enable (baseConfig w c v) = Net_SASL_Enable (sarama_NewConfig w)"
  "Net_SASL_Handshake (baseConfig w c v) = Net_SASL_Handshake (sarama_NewConfig w)"
  "Net_SASL_Mechanism (baseConfig w c v) = Net_SASL_Mechanism (sarama_NewConfig w)"
  "Net_SASL_User (baseConfig w c v) = Net_SASL_User (sarama_NewConfig w)"
  "Net_SASL_Password (baseConfig w c v) = Net_SASL_Password (sarama_NewConfig w)"
  "Net_SASL_SCRAMClientGeneratorFunc (baseConfig w c v) = Net_SASL_SCRAMClientGeneratorFunc (sarama_NewConfig w)"
  "Net_SASL_TokenProvider (baseConfig w c v) = Net_SASL_TokenProvider (sarama_NewConfig w)"
  by (simp_all add: baseConfig_def)

lemma saslMechanism_Version:
  "saslMechanism w c k = Return k' \<Longrightarrow> Version k' = Version k"
  by (auto simp: saslMechanism_def Let_def split: if_splits)

lemma saslConfig_Version:
  "saslConfig w c k = Return k' \<Longrightarrow> Version k' = Version k"
  by (auto simp: saslConfig_def Let_def dest: saslMechanism_Version split: if_splits outcome.splits)

lemma saslConfig_disabled:
  "\<not> saslEnabled c \<Longrightarrow> saslConfig w c k = Return k"
  by (simp add: saslConfig_def)

lemma saslConfig_enabled_flags:
  "saslEnabled c \<Longrightarrow> saslConfig w c k = Return k' \<Longrightarrow>
     Net_SASL_Enable k' \<and> Net_SASL_Handshake k'"
  by (auto simp: saslConfig_def Let_def split: outcome.splits)

lemma saslConfig_enabled_Fatal:
  "saslEnabled c \<Longrightarrow> saslMechanism w c k = Fatal e \<Longrightarrow> saslConfig w c k = Fatal e"
  by (simp add: saslConfig_def)

lemma saslMechanism_unknown:
  "SASLMechanism c \<notin> {''plain'', ''scram-sha256'', ''scram-sha512'', ''aws-iam'', ''oauthbearer''} \<Longrightarrow>
     saslMechanism w c k = Fatal UnknownMechanism"
  by (simp add: saslMechanism_def)

lemma saslMechanism_missing_region:
  "SASLMechanism c = ''aws-iam'' \<Longrightarrow> SASLAWSRegion c = [] \<Longrightarrow> os_Getenv w ''AWS_REGION'' = [] \<Longrightarrow>
     saslMechanism w c k = Fatal MissingRequiredParameter"
  by (simp add: saslMechanism_def)

lemma saslMechanism_missing_tokenUrl:
  "SASLMechanism c = ''oauthbearer'' \<Longrightarrow> SASLTokenUrl c = [] \<Longrightarrow> os_Getenv w ''TOKEN_URL'' = [] \<Longrightarrow>
     saslMechanism w c k = Fatal MissingRequiredParameter"
  by (simp add: saslMechanism_def)

lemma newKafkaConfig_parse_failed:
  "kafkaVersion w c = None \<Longrightarrow>
     newKafkaConfig w c = Return (sarama_NewConfig w, Some UnsupportedVersion)"
  by (simp add: newKafkaConfig_def)

lemma newKafkaConfig_parse_ok:
  "kafkaVersion w c = Some v \<Longrightarrow>
     newKafkaConfig w c =
       (case saslConfig w c (baseConfig w c v) of
          Fatal e \<Rightarrow> Fatal e
        | Return k \<Rightarrow> Return (tlsConfig w c k))"
  by (simp add: newKafkaConfig_def)

lemma newKafkaConfig_Return:
  "newKafkaConfig w c = Return (k, e) \<Longrightarrow>
     (kafkaVersion w c = None \<and> k = sarama_NewConfig w \<and> e = Some UnsupportedVersion)
     \<or> (\<exists>v k1. kafkaVersion w c = Some v \<and> saslConfig w c (baseConfig w c v) = Return k1
           \<and> tlsConfig w c k1 = (k, e))"
  by (auto simp: newKafkaConfig_def split: option.splits outcome.splits)

subsection \<open>The certificate material loader\<close>

text \<open>
  Claim C8. For every input string the loader first decodes the string itself as PEM
  and, when that succeeds, returns the block with the input as its bytes and reads no
  file. Only when the inline decoding fails is the string used as a path: an unreadable
  path is the error \<open>MaterialNotFound\<close>, contents that do not decode are the error
  \<open>InvalidEncoding\<close>, contents that decode are returned with the block. In the three
  file cases exactly one read is made, of the input as a path.
\<close>

theorem parsePemOrLoadFromFile_inline_then_file:
  "(pem_Decode w input = Some b \<longrightarrow>
      parsePemOrLoadFromFile w input = (Inr (b, input), []))
   \<and> (pem_Decode w input = None \<and> os_ReadFile w input = None \<longrightarrow>
      parsePemOrLoadFromFile w input = (Inl MaterialNotFound, [input]))
   \<and> (pem_Decode w input = None \<and> os_ReadFile w input = Some contents \<and> pem_Decode w contents = None \<longrightarrow>
      parsePemOrLoadFromFile w input = (Inl InvalidEncoding, [input]))
   \<and> (pem_Decode w input = None \<and> os_ReadFile w input = Some contents \<and> pem_Decode w contents = Some b \<longrightarrow>
      parsePemOrLoadFromFile w input = (Inr (b, contents), [input]))"
  by (simp add: parsePemOrLoadFromFile_def)

theorem parsePemOrLoadFromFile_inline_then_file_witness:
  "parsePemOrLoadFromFile world0 ''-----BEGIN CERT'' =
     (Inr (\<lparr>Type = ''PEM'', Headers = [], Bytes = ''CERT''\<rparr>, ''-----BEGIN CERT''), [])
   \<and> parsePemOrLoadFromFile world0 ''/etc/kafka/missing.crt'' =
     (Inl MaterialNotFound, [''/etc/kafka/missing.crt''])
   \<and> parsePemOrLoadFromFile world0 ''/etc/kafka/notes.txt'' =
     (Inl InvalidEncoding, [''/etc/kafka/notes.txt''])
   \<and> parsePemOrLoadFromFile world0 ''/etc/kafka/client.crt'' =
     (Inr (\<lparr>Type = ''PEM'', Headers = [], Bytes = ''CERT''\<rparr>, ''-----BEGIN CERT''), [''/etc/kafka/client.crt''])"
proof -
  have d1: "pem_Decode world0 ''-----BEGIN CERT'' = Some \<lparr>Type = ''PEM'', Headers = [], Bytes = ''CERT''\<rparr>"
    by (simp add: world0_simps decode0_def)
  have d2: "pem_Decode world0 ''/etc/kafka/missing.crt'' = None \<and> os_ReadFile world0 ''/etc/kafka/missing.crt'' = None"
    by (simp add: world0_simps decode0_def files0_def)
  have d3: "pem_Decode world0 ''/etc/kafka/notes.txt'' = None
      \<and> os_ReadFile world0 ''/etc/kafka/notes.txt'' = Some ''not a certificate''
      \<and> pem_Decode world0 ''not a certificate'' = None"
    by (simp add: world0_simps decode0_def files0_def)
  have d4: "pem_Decode world0 ''/etc/kafka/client.crt'' = None
      \<and> os_ReadFile world0 ''/etc/kafka/client.crt'' = Some ''-----BEGIN CERT''
      \<and> pem_Decode world0 ''-----BEGIN CERT'' = Some \<lparr>Type = ''PEM'', Headers = [], Bytes = ''CERT''\<rparr>"
    by (simp add: world0_simps decode0_def files0_def)
  note t = parsePemOrLoadFromFile_inline_then_file
  have r1: "parsePemOrLoadFromFile world0 ''-----BEGIN CERT'' =
     (Inr (\<lparr>Type = ''PEM'', Headers = [], Bytes = ''CERT''\<rparr>, ''-----BEGIN CERT''), [])"
    by (rule t [THEN conjunct1, THEN mp, OF d1])
  have r2: "parsePemOrLoadFromFile world0 ''/etc/kafka/missing.crt'' =
     (Inl MaterialNotFound, [''/etc/kafka/missing.crt''])"
    by (rule t [THEN conjunct2, THEN conjunct1, THEN mp, OF d2])
  have r3: "parsePemOrLoadFromFile world0 ''/etc/kafka/notes.txt'' =
     (Inl InvalidEncoding, [''/etc/kafka/notes.txt''])"
    by (rule t [THEN conjunct2, THEN conjunct2, THEN conjunct1, THEN mp, OF d3])
  have r4: "parsePemOrLoadFromFile world0 ''/etc/kafka/client.crt'' =
     (Inr (\<lparr>Type = ''PEM'', Headers = [], Bytes = ''CERT''\<rparr>, ''-----BEGIN CERT''), [''/etc/kafka/client.crt''])"
    by (rule t [THEN conjunct2, THEN conjunct2, THEN conjunct2, THEN mp, OF d4])
  from r1 r2 r3 r4 show ?thesis by (intro conjI)
qed

subsection \<open>The TLS builder\<close>

text \<open>
  Claim C10. When exactly one of the client certificate and the client key is given,
  the builder loads no client certificate: nothing is read or decoded for it, the
  result is the one for no client credentials at all, and with an empty CA input it is
  the empty context (no certificate, no trust pool) with no error.
\<close>

theorem newTLSConfig_lone_credential_ignored:
  "(clientCert = [] \<and> clientKey \<noteq> []) \<or> (clientCert \<noteq> [] \<and> clientKey = []) \<Longrightarrow>
     clientCertificates w clientCert clientKey clientKeyPassphrase = (Inr [], [])
   \<and> newTLSConfig w clientCert clientKey caCert clientKeyPassphrase
       = newTLSConfig w [] [] caCert clientKeyPassphrase
   \<and> newTLSConfig w clientCert clientKey [] clientKeyPassphrase
       = ((\<lparr>Certificates = [], RootCAs = None, InsecureSkipVerify = False\<rparr>, None), [])"
  by (auto simp: newTLSConfig_def clientCertificates_def)

theorem newTLSConfig_lone_credential_ignored_witness:
  "newTLSConfig world0 ''/etc/kafka/missing.crt'' [] [] ''hunter2''
       = ((\<lparr>Certificates = [], RootCAs = None, InsecureSkipVerify = False\<rparr>, None), [])
   \<and> newTLSConfig world0 [] ''/etc/kafka/client.key'' [] []
       = ((\<lparr>Certificates = [], RootCAs = None, InsecureSkipVerify = False\<rparr>, None), [])
   \<and> clientCertificates world0 ''/etc/kafka/missing.crt'' [] ''hunter2'' = (Inr [], [])"
proof -
  have h1: "(''/etc/kafka/missing.crt'' = [] \<and> ([]::string) \<noteq> [])
      \<or> (''/etc/kafka/missing.crt'' \<noteq> [] \<and> ([]::string) = [])"
    by simp
  have h2: "(([]::string) = [] \<and> ''/etc/kafka/client.key'' \<noteq> [])
      \<or> (([]::string) \<noteq> [] \<and> ''/etc/kafka/client.key'' = [])"
    by simp
  note a = newTLSConfig_lone_credential_ignored [OF h1, of world0 "''hunter2''" "[]"]
  note b = newTLSConfig_lone_credential_ignored [OF h2, of world0 "[]" "[]"]
  from a [THEN conjunct2, THEN conjunct2] b [THEN conjunct2, THEN conjunct2] a [THEN conjunct1]
  show ?thesis by (intro conjI)
qed

text \<open>
  Claim C4, as stated, fails: with an empty CA input the builder still loads the client
  certificate when both the certificate and the key are given, and an unreadable
  certificate path is returned as an error.
\<close>

theorem newTLSConfig_empty_ca_error_counterexample:
  "newTLSConfig world0 ''/etc/kafka/missing.crt'' ''/etc/kafka/client.key'' [] []
     = ((\<lparr>Certificates = [], RootCAs = None, InsecureSkipVerify = False\<rparr>, Some MaterialNotFound),
        [''/etc/kafka/missing.crt''])"
  by (simp add: newTLSConfig_def clientCertificates_def parsePemOrLoadFromFile_def
      world0_simps decode0_def files0_def)

text \<open>
  Claim C4, amended. With an empty CA input the returned context never has an explicit
  trust pool. When the client certificate or the client key is empty the builder
  returns the empty context, no error, and reads nothing. When both are given it
  returns an error exactly in these cases, with a context that holds no certificate:
  the certificate does not load, the key does not load (the loader's error in both
  cases), the key block is encrypted and does not decrypt with the passphrase
  (\<open>DecryptionFailed\<close>), or the certificate does not pair with the key bytes, which are
  the re-encoded decrypted block for an encrypted key (\<open>KeyPairMismatch\<close>). In the
  remaining case it returns the context with the one paired certificate and no error.
\<close>

theorem newTLSConfig_empty_ca:
  "RootCAs (fst (fst (newTLSConfig w clientCert clientKey [] clientKeyPassphrase))) = None
   \<and> (clientCert = [] \<or> clientKey = [] \<longrightarrow>
        newTLSConfig w clientCert clientKey [] clientKeyPassphrase
          = ((\<lparr>Certificates = [], RootCAs = None, InsecureSkipVerify = False\<rparr>, None), []))
   \<and> (clientCert \<noteq> [] \<and> clientKey \<noteq> []
        \<and> parsePemOrLoadFromFile w clientCert = (Inl err, r1) \<longrightarrow>
        newTLSConfig w clientCert clientKey [] clientKeyPassphrase
          = ((\<lparr>Certificates = [], RootCAs = None, InsecureSkipVerify = False\<rparr>, Some err), r1))
   \<and> (clientCert \<noteq> [] \<and> clientKey \<noteq> []
        \<and> parsePemOrLoadFromFile w clientCert = (Inr (certBlock, certBytes), r1)
        \<and> parsePemOrLoadFromFile w clientKey = (Inl err, r2) \<longrightarrow>
        newTLSConfig w clientCert clientKey [] clientKeyPassphrase
          = ((\<lparr>Certificates = [], RootCAs = None, InsecureSkipVerify = False\<rparr>, Some err), r1 @ r2))
   \<and> (clientCert \<noteq> [] \<and> clientKey \<noteq> []
        \<and> parsePemOrLoadFromFile w clientCert = (Inr (certBlock, certBytes), r1)
        \<and> parsePemOrLoadFromFile w clientKey = (Inr (keyBlock, keyBytes), r2)
        \<and> x509_IsEncryptedPEMBlock w keyBlock
        \<and> x509_DecryptPEMBlock w keyBlock clientKeyPassphrase = None \<longrightarrow>
        newTLSConfig w clientCert clientKey [] clientKeyPassphrase
          = ((\<lparr>Certificates = [], RootCAs = None, InsecureSkipVerify = False\<rparr>, Some DecryptionFailed),
             r1 @ r2))
   \<and> (clientCert \<noteq> [] \<and> clientKey \<noteq> []
        \<and> parsePemOrLoadFromFile w clientCert = (Inr (certBlock, certBytes), r1)
        \<and> parsePemOrLoadFromFile w clientKey = (Inr (keyBlock, keyBytes), r2)
        \<and> x509_IsEncryptedPEMBlock w keyBlock
        \<and> x509_DecryptPEMBlock w keyBlock clientKeyPassphrase = Some plain \<longrightarrow>
        newTLSConfig w clientCert clientKey [] clientKeyPassphrase
          = (case tls_X509KeyPair w certBytes
                    (pem_EncodeToMemory w \<lparr>Type = Type keyBlock, Headers = [], Bytes = plain\<rparr>) of
               None \<Rightarrow>
                 ((\<lparr>Certificates = [], RootCAs = None, InsecureSkipVerify = False\<rparr>, Some KeyPairMismatch),
                  r1 @ r2)
             | Some cert \<Rightarrow>
                 ((\<lparr>Certificates = [cert], RootCAs = None, InsecureSkipVerify = False\<rparr>, None),
                  r1 @ r2)))
   \<and> (clientCert \<noteq> [] \<and> clientKey \<noteq> []
        \<and> parsePemOrLoadFromFile w clientCert = (Inr (certBlock, certBytes), r1)
        \<and> parsePemOrLoadFromFile w clientKey = (Inr (keyBlock, keyBytes), r2)
        \<and> \<not> x509_IsEncryptedPEMBlock w keyBlock \<longrightarrow>
        newTLSConfig w clientCert clientKey [] clientKeyPassphrase
          = (case tls_X509KeyPair w certBytes keyBytes of
               None \<Rightarrow>
                 ((\<lparr>Certificates = [], RootCAs = None, InsecureSkipVerify = False\<rparr>, Some KeyPairMismatch),
                  r1 @ r2)
             | Some cert \<Rightarrow>
                 ((\<lparr>Certificates = [cert], RootCAs = None, InsecureSkipVerify = False\<rparr>, None),
                  r1 @ r2)))"
proof -
  have p1: "RootCAs (fst (fst (newTLSConfig w clientCert clientKey [] clientKeyPassphrase))) = None"
    by (simp add: newTLSConfig_no_ca split: prod.splits sum.splits)
  have rest: ?thesis if "RootCAs (fst (fst (newTLSConfig w clientCert clientKey [] clientKeyPassphrase))) = None"
    using that
    by (simp add: newTLSConfig_no_ca clientCertificates_def decryptedKeyBytes_def split: option.splits)
  from rest [OF p1] show ?thesis .
qed

theorem newTLSConfig_empty_ca_witness:
  "RootCAs (fst (fst (newTLSConfig world0 ''/etc/kafka/client.crt'' ''/etc/kafka/client.key'' [] []))) = None
   \<and> newTLSConfig world0 [] ''/etc/kafka/client.key'' [] []
       = ((\<lparr>Certificates = [], RootCAs = None, InsecureSkipVerify = False\<rparr>, None), [])
   \<and> newTLSConfig world0 ''/etc/kafka/missing.crt'' ''/etc/kafka/client.key'' [] []
       = ((\<lparr>Certificates = [], RootCAs = None, InsecureSkipVerify = False\<rparr>, Some MaterialNotFound), [''/etc/kafka/missing.crt''])
   \<and> newTLSConfig world0 ''/etc/kafka/client.crt'' ''/etc/kafka/notes.txt'' [] []
       = ((\<lparr>Certificates = [], RootCAs = None, InsecureSkipVerify = False\<rparr>, Some InvalidEncoding), [''/etc/kafka/client.crt'', ''/etc/kafka/notes.txt''])
   \<and> newTLSConfig world0 ''/etc/kafka/client.crt'' ''-----BEGIN ENCRYPTED KEY'' [] ''wrong''
       = ((\<lparr>Certificates = [], RootCAs = None, InsecureSkipVerify = False\<rparr>, Some DecryptionFailed), [''/etc/kafka/client.crt''])
   \<and> newTLSConfig world0 ''/etc/kafka/client.crt'' ''-----BEGIN ENCRYPTED MISMATCH'' [] ''hunter2''
       = ((\<lparr>Certificates = [], RootCAs = None, InsecureSkipVerify = False\<rparr>, Some KeyPairMismatch), [''/etc/kafka/client.crt''])
   \<and> newTLSConfig world0 ''/etc/kafka/client.crt'' ''-----BEGIN ENCRYPTED KEY'' [] ''hunter2''
       = ((\<lparr>Certificates = [X509KeyPair ''-----BEGIN CERT'' ''-----BEGIN KEY''], RootCAs = None, InsecureSkipVerify = False\<rparr>, None), [''/etc/kafka/client.crt''])
   \<and> newTLSConfig world0 ''/etc/kafka/client.crt'' ''-----BEGIN MISMATCH'' [] []
       = ((\<lparr>Certificates = [], RootCAs = None, InsecureSkipVerify = False\<rparr>, Some KeyPairMismatch), [''/etc/kafka/client.crt''])
   \<and> newTLSConfig world0 ''/etc/kafka/client.crt'' ''/etc/kafka/client.key'' [] []
       = ((\<lparr>Certificates = [X509KeyPair ''-----BEGIN CERT'' ''-----BEGIN KEY''], RootCAs = None, InsecureSkipVerify = False\<rparr>, None), [''/etc/kafka/client.crt'', ''/etc/kafka/client.key''])"
proof -
  note t = newTLSConfig_empty_ca
  have r0: "RootCAs (fst (fst (newTLSConfig world0 ''/etc/kafka/client.crt'' ''/etc/kafka/client.key'' [] []))) = None"
    by (rule t [THEN conjunct1])
  have ha: "([]::string) = [] \<or> ''/etc/kafka/client.key'' = []"
    by (simp add: parsePemOrLoadFromFile_def world0_def decode0_def files0_def)
  have ra: "newTLSConfig world0 [] ''/etc/kafka/client.key'' [] []
       = ((\<lparr>Certificates = [], RootCAs = None, InsecureSkipVerify = False\<rparr>, None), [])"
    using t [THEN conjunct2, THEN conjunct1, THEN mp, OF ha]
    by (simp add: world0_def)
  have hb: "''/etc/kafka/missing.crt'' \<noteq> [] \<and> ''/etc/kafka/client.key'' \<noteq> []
      \<and> parsePemOrLoadFromFile world0 ''/etc/kafka/missing.crt'' = (Inl MaterialNotFound, [''/etc/kafka/missing.crt''])"
    by (simp add: parsePemOrLoadFromFile_def world0_def decode0_def files0_def)
  have rb: "newTLSConfig world0 ''/etc/kafka/missing.crt'' ''/etc/kafka/client.key'' [] []
       = ((\<lparr>Certificates = [], RootCAs = None, InsecureSkipVerify = False\<rparr>, Some MaterialNotFound), [''/etc/kafka/missing.crt''])"
    using t [THEN conjunct2, THEN conjunct2, THEN conjunct1, THEN mp, OF hb]
    by (simp add: world0_def)
  have hc: "''/etc/kafka/client.crt'' \<noteq> [] \<and> ''/etc/kafka/notes.txt'' \<noteq> []
      \<and> parsePemOrLoadFromFile world0 ''/etc/kafka/client.crt'' = (Inr (\<lparr>Type = ''PEM'', Headers = [], Bytes = ''CERT''\<rparr>, ''-----BEGIN CERT''), [''/etc/kafka/client.crt''])
      \<and> parsePemOrLoadFromFile world0 ''/etc/kafka/notes.txt'' = (Inl InvalidEncoding, [''/etc/kafka/notes.txt''])"
    by (simp add: parsePemOrLoadFromFile_def world0_def decode0_def files0_def)
  have rc: "newTLSConfig world0 ''/etc/kafka/client.crt'' ''/etc/kafka/notes.txt'' [] []
       = ((\<lparr>Certificates = [], RootCAs = None, InsecureSkipVerify = False\<rparr>, Some InvalidEncoding), [''/etc/kafka/client.crt'', ''/etc/kafka/notes.txt''])"
    using t [THEN conjunct2, THEN conjunct2, THEN conjunct2, THEN conjunct1, THEN mp, OF hc]
    by (simp add: world0_def)
  have hd: "''/etc/kafka/client.crt'' \<noteq> [] \<and> ''-----BEGIN ENCRYPTED KEY'' \<noteq> []
      \<and> parsePemOrLoadFromFile world0 ''/etc/kafka/client.crt'' = (Inr (\<lparr>Type = ''PEM'', Headers = [], Bytes = ''CERT''\<rparr>, ''-----BEGIN CERT''), [''/etc/kafka/client.crt''])
      \<and> parsePemOrLoadFromFile world0 ''-----BEGIN ENCRYPTED KEY'' = (Inr (\<lparr>Type = ''PEM'', Headers = [(''DEK-Info'', ''AES-128-CBC'')], Bytes = ''KEY''\<rparr>, ''-----BEGIN ENCRYPTED KEY''), [])
      \<and> x509_IsEncryptedPEMBlock world0 \<lparr>Type = ''PEM'', Headers = [(''DEK-Info'', ''AES-128-CBC'')], Bytes = ''KEY''\<rparr>
      \<and> x509_DecryptPEMBlock world0 \<lparr>Type = ''PEM'', Headers = [(''DEK-Info'', ''AES-128-CBC'')], Bytes = ''KEY''\<rparr> ''wrong'' = None"
    by (simp add: parsePemOrLoadFromFile_def world0_def decode0_def files0_def)
  have rd: "newTLSConfig world0 ''/etc/kafka/client.crt'' ''-----BEGIN ENCRYPTED KEY'' [] ''wrong''
       = ((\<lparr>Certificates = [], RootCAs = None, InsecureSkipVerify = False\<rparr>, Some DecryptionFailed), [''/etc/kafka/client.crt''])"
    using t [THEN conjunct2, THEN conjunct2, THEN conjunct2, THEN conjunct2, THEN conjunct1, THEN mp, OF hd]
    by (simp add: world0_def)
  have he: "''/etc/kafka/client.crt'' \<noteq> [] \<and> ''-----BEGIN ENCRYPTED MISMATCH'' \<noteq> []
      \<and> parsePemOrLoadFromFile world0 ''/etc/kafka/client.crt'' = (Inr (\<lparr>Type = ''PEM'', Headers = [], Bytes = ''CERT''\<rparr>, ''-----BEGIN CERT''), [''/etc/kafka/client.crt''])
      \<and> parsePemOrLoadFromFile world0 ''-----BEGIN ENCRYPTED MISMATCH'' = (Inr (\<lparr>Type = ''PEM'', Headers = [(''DEK-Info'', ''AES-128-CBC'')], Bytes = ''MISMATCH''\<rparr>, ''-----BEGIN ENCRYPTED MISMATCH''), [])
      \<and> x509_IsEncryptedPEMBlock world0 \<lparr>Type = ''PEM'', Headers = [(''DEK-Info'', ''AES-128-CBC'')], Bytes = ''MISMATCH''\<rparr>
      \<and> x509_DecryptPEMBlock world0 \<lparr>Type = ''PEM'', Headers = [(''DEK-Info'', ''AES-128-CBC'')], Bytes = ''MISMATCH''\<rparr> ''hunter2'' = Some ''MISMATCH''"
    by (simp add: parsePemOrLoadFromFile_def world0_def decode0_def files0_def)
  have re: "newTLSConfig world0 ''/etc/kafka/client.crt'' ''-----BEGIN ENCRYPTED MISMATCH'' [] ''hunter2''
       = ((\<lparr>Certificates = [], RootCAs = None, InsecureSkipVerify = False\<rparr>, Some KeyPairMismatch), [''/etc/kafka/client.crt''])"
    using t [THEN conjunct2, THEN conjunct2, THEN conjunct2, THEN conjunct2, THEN conjunct2, THEN conjunct1, THEN mp, OF he]
    by (simp add: world0_def)
  have hf: "''/etc/kafka/client.crt'' \<noteq> [] \<and> ''-----BEGIN ENCRYPTED KEY'' \<noteq> []
      \<and> parsePemOrLoadFromFile world0 ''/etc/kafka/client.crt'' = (Inr (\<lparr>Type = ''PEM'', Headers = [], Bytes = ''CERT''\<rparr>, ''-----BEGIN CERT''), [''/etc/kafka/client.crt''])
      \<and> parsePemOrLoadFromFile world0 ''-----BEGIN ENCRYPTED KEY'' = (Inr (\<lparr>Type = ''PEM'', Headers = [(''DEK-Info'', ''AES-128-CBC'')], Bytes = ''KEY''\<rparr>, ''-----BEGIN ENCRYPTED KEY''), [])
      \<and> x509_IsEncryptedPEMBlock world0 \<lparr>Type = ''PEM'', Headers = [(''DEK-Info'', ''AES-128-CBC'')], Bytes = ''KEY''\<rparr>
      \<and> x509_DecryptPEMBlock world0 \<lparr>Type = ''PEM'', Headers = [(''DEK-Info'', ''AES-128-CBC'')], Bytes = ''KEY''\<rparr> ''hunter2'' = Some ''KEY''"
    by (simp add: parsePemOrLoadFromFile_def world0_def decode0_def files0_def)
  have rf: "newTLSConfig world0 ''/etc/kafka/client.crt'' ''-----BEGIN ENCRYPTED KEY'' [] ''hunter2''
       = ((\<lparr>Certificates = [X509KeyPair ''-----BEGIN CERT'' ''-----BEGIN KEY''], RootCAs = None, InsecureSkipVerify = False\<rparr>, None), [''/etc/kafka/client.crt''])"
    using t [THEN conjunct2, THEN conjunct2, THEN conjunct2, THEN conjunct2, THEN conjunct2, THEN conjunct1, THEN mp, OF hf]
    by (simp add: world0_def)
  have hg: "''/etc/kafka/client.crt'' \<noteq> [] \<and> ''-----BEGIN MISMATCH'' \<noteq> []
      \<and> parsePemOrLoadFromFile world0 ''/etc/kafka/client.crt'' = (Inr (\<lparr>Type = ''PEM'', Headers = [], Bytes = ''CERT''\<rparr>, ''-----BEGIN CERT''), [''/etc/kafka/client.crt''])
      \<and> parsePemOrLoadFromFile world0 ''-----BEGIN MISMATCH'' = (Inr (\<lparr>Type = ''PEM'', Headers = [], Bytes = ''MISMATCH''\<rparr>, ''-----BEGIN MISMATCH''), [])
      \<and> \<not> x509_IsEncryptedPEMBlock world0 \<lparr>Type = ''PEM'', Headers = [], Bytes = ''MISMATCH''\<rparr>"
    by (simp add: parsePemOrLoadFromFile_def world0_def decode0_def files0_def)
  have rg: "newTLSConfig world0 ''/etc/kafka/client.crt'' ''-----BEGIN MISMATCH'' [] []
       = ((\<lparr>Certificates = [], RootCAs = None, InsecureSkipVerify = False\<rparr>, Some KeyPairMismatch), [''/etc/kafka/client.crt''])"
    using t [THEN conjunct2, THEN conjunct2, THEN conjunct2, THEN conjunct2, THEN conjunct2, THEN conjunct2, THEN mp, OF hg]
    by (simp add: world0_def)
  have hh: "''/etc/kafka/client.crt'' \<noteq> [] \<and> ''/etc/kafka/client.key'' \<noteq> []
      \<and> parsePemOrLoadFromFile world0 ''/etc/kafka/client.crt'' = (Inr (\<lparr>Type = ''PEM'', Headers = [], Bytes = ''CERT''\<rparr>, ''-----BEGIN CERT''), [''/etc/kafka/client.crt''])
      \<and> parsePemOrLoadFromFile world0 ''/etc/kafka/client.key'' = (Inr (\<lparr>Type = ''PEM'', Headers = [], Bytes = ''KEY''\<rparr>, ''-----BEGIN KEY''), [''/etc/kafka/client.key''])
      \<and> \<not> x509_IsEncryptedPEMBlock world0 \<lparr>Type = ''PEM'', Headers = [], Bytes = ''KEY''\<rparr>"
    by (simp add: parsePemOrLoadFromFile_def world0_def decode0_def files0_def)
  have rh: "newTLSConfig world0 ''/etc/kafka/client.crt'' ''/etc/kafka/client.key'' [] []
       = ((\<lparr>Certificates = [X509KeyPair ''-----BEGIN CERT'' ''-----BEGIN KEY''], RootCAs = None, InsecureSkipVerify = False\<rparr>, None), [''/etc/kafka/client.crt'', ''/etc/kafka/client.key''])"
    using t [THEN conjunct2, THEN conjunct2, THEN conjunct2, THEN conjunct2, THEN conjunct2, THEN conjunct2, THEN mp, OF hh]
    by (simp add: world0_def)
  from r0 ra rb rc rd re rf rg rh show ?thesis
    by (intro conjI)
qed

subsection \<open>The transport configuration assembler\<close>

text \<open>
  Claim C9. The assembler returns the version error exactly when the version string is
  non-empty and does not parse. Whenever it returns a configuration for an empty version
  string, that configuration carries the baseline version 2.7.0.0; whenever it returns
  one for a non-empty string that parses, it carries the parsed version.
\<close>

theorem newKafkaConfig_version:
  "((\<exists>k. newKafkaConfig w c = Return (k, Some UnsupportedVersion)) \<longleftrightarrow>
      KafkaVersion c \<noteq> [] \<and> sarama_ParseKafkaVersion w (KafkaVersion c) = None)
   \<and> (KafkaVersion c = [] \<and> newKafkaConfig w c = Return (k, e) \<longrightarrow> Version k = V2_7_0_0)
   \<and> (KafkaVersion c \<noteq> [] \<and> sarama_ParseKafkaVersion w (KafkaVersion c) = Some v
        \<and> newKafkaConfig w c = Return (k, e) \<longrightarrow> Version k = v)"
proof (intro conjI impI)
  show "(\<exists>k. newKafkaConfig w c = Return (k, Some UnsupportedVersion)) \<longleftrightarrow>
      KafkaVersion c \<noteq> [] \<and> sarama_ParseKafkaVersion w (KafkaVersion c) = None"
  proof
    assume "\<exists>k. newKafkaConfig w c = Return (k, Some UnsupportedVersion)"
    then obtain k0 where r: "newKafkaConfig w c = Return (k0, Some UnsupportedVersion)" ..
    from newKafkaConfig_Return [OF r] tlsConfig_errors
    have "kafkaVersion w c = None"
      by (metis snd_conv)
    then show "KafkaVersion c \<noteq> [] \<and> sarama_ParseKafkaVersion w (KafkaVersion c) = None"
      by (simp add: kafkaVersion_None_iff)
  next
    assume "KafkaVersion c \<noteq> [] \<and> sarama_ParseKafkaVersion w (KafkaVersion c) = None"
    then have "kafkaVersion w c = None"
      by (simp add: kafkaVersion_None_iff)
    then show "\<exists>k. newKafkaConfig w c = Return (k, Some UnsupportedVersion)"
      by (simp add: newKafkaConfig_parse_failed)
  qed
next
  assume a: "KafkaVersion c = [] \<and> newKafkaConfig w c = Return (k, e)"
  then have "kafkaVersion w c = Some V2_7_0_0"
    by (simp add: kafkaVersion_def)
  with a newKafkaConfig_Return [of w c k e]
  obtain k1 where "saslConfig w c (baseConfig w c V2_7_0_0) = Return k1" "tlsConfig w c k1 = (k, e)"
    by auto
  then show "Version k = V2_7_0_0"
    using saslConfig_Version [of w c "baseConfig w c V2_7_0_0" k1] tlsConfig_keeps(1) [of w c k1]
    by (simp add: baseConfig_keeps)
next
  assume a: "KafkaVersion c \<noteq> [] \<and> sarama_ParseKafkaVersion w (KafkaVersion c) = Some v
      \<and> newKafkaConfig w c = Return (k, e)"
  then have "kafkaVersion w c = Some v"
    by (simp add: kafkaVersion_def)
  with a newKafkaConfig_Return [of w c k e]
  obtain k1 where "saslConfig w c (baseConfig w c v) = Return k1" "tlsConfig w c k1 = (k, e)"
    by auto
  then show "Version k = v"
    using saslConfig_Version [of w c "baseConfig w c v" k1] tlsConfig_keeps(1) [of w c k1]
    by (simp add: baseConfig_keeps)
qed

theorem newKafkaConfig_version_witness:
  "(\<exists>k. newKafkaConfig world0 (emptyConfig\<lparr>KafkaVersion := ''x.y''\<rparr>) = Return (k, Some UnsupportedVersion))
   \<and> newKafkaConfig world0 emptyConfig = Return (baseConfig world0 emptyConfig V2_7_0_0, None)
   \<and> Version (baseConfig world0 emptyConfig V2_7_0_0) = V2_7_0_0
   \<and> newKafkaConfig world0 (emptyConfig\<lparr>KafkaVersion := ''3.6.0''\<rparr>)
       = Return (baseConfig world0 emptyConfig (3, 6, 0, 0), None)
   \<and> Version (baseConfig world0 emptyConfig (3, 6, 0, 0)) = (3, 6, 0, 0)"
proof -
  let ?bad = "emptyConfig\<lparr>KafkaVersion := ''x.y''\<rparr>"
  let ?new = "emptyConfig\<lparr>KafkaVersion := ''3.6.0''\<rparr>"
  note t = newKafkaConfig_version
  have hb: "KafkaVersion ?bad \<noteq> [] \<and> sarama_ParseKafkaVersion world0 (KafkaVersion ?bad) = None"
    by (simp add: world0_def)
  have a: "\<exists>k. newKafkaConfig world0 ?bad = Return (k, Some UnsupportedVersion)"
    by (rule t [THEN conjunct1, THEN iffD2, OF hb])
  have e0: "newKafkaConfig world0 emptyConfig = Return (baseConfig world0 emptyConfig V2_7_0_0, None)"
    by (simp add: newKafkaConfig_def kafkaVersion_def saslConfig_def tlsConfig_def saslEnabled_def
        emptyConfig_def)
  have h0: "KafkaVersion emptyConfig = []
      \<and> newKafkaConfig world0 emptyConfig = Return (baseConfig world0 emptyConfig V2_7_0_0, None)"
    using e0 by (simp add: emptyConfig_def)
  have b: "Version (baseConfig world0 emptyConfig V2_7_0_0) = V2_7_0_0"
    by (rule t [THEN conjunct2, THEN conjunct1, THEN mp, OF h0])
  have e1: "newKafkaConfig world0 ?new = Return (baseConfig world0 emptyConfig (3, 6, 0, 0), None)"
    by (simp add: newKafkaConfig_def kafkaVersion_def saslConfig_def tlsConfig_def saslEnabled_def
        baseConfig_def emptyConfig_def world0_def)
  have h1: "KafkaVersion ?new \<noteq> [] \<and> sarama_ParseKafkaVersion world0 (KafkaVersion ?new) = Some (3, 6, 0, 0)
      \<and> newKafkaConfig world0 ?new = Return (baseConfig world0 emptyConfig (3, 6, 0, 0), None)"
    using e1 by (simp add: world0_def)
  have c: "Version (baseConfig world0 emptyConfig (3, 6, 0, 0)) = (3, 6, 0, 0)"
    by (rule t [THEN conjunct2, THEN conjunct2, THEN mp, OF h1])
  from a e0 b e1 c show ?thesis
    by (intro conjI)
qed

text \<open>
  Claim C1, as stated, fails: a mechanism can be selected while SASL is disabled. With
  the mechanism \<^verbatim>\<open>scram-sha512\<close> and no username and no password the build returns,
  without error, the configuration in which no SASL field has been assigned, so the
  enable flag is not set.
\<close>

theorem newKafkaConfig_sasl_flags_counterexample:
  "newKafkaConfig world0 (emptyConfig\<lparr>SASLMechanism := ''scram-sha512''\<rparr>)
     = Return (baseConfig world0 (emptyConfig\<lparr>SASLMechanism := ''scram-sha512''\<rparr>) V2_7_0_0, None)
   \<and> \<not> Net_SASL_Enable (baseConfig world0 (emptyConfig\<lparr>SASLMechanism := ''scram-sha512''\<rparr>) V2_7_0_0)
   \<and> \<not> saslEnabled (emptyConfig\<lparr>SASLMechanism := ''scram-sha512''\<rparr>)"
  by (simp add: newKafkaConfig_def kafkaVersion_def saslConfig_def tlsConfig_def saslEnabled_def
      baseConfig_def emptyConfig_def world0_simps saramaDefaults0_def)

text \<open>
  Claim C1, amended. The build treats SASL as disabled exactly when the username and
  the password are both empty and the mechanism is not \<^verbatim>\<open>aws-iam\<close>; this covers the
  case of all three being empty. A build with SASL disabled never ends the process, and
  every SASL field of a configuration it returns is the one of sarama's defaults.
  Whenever SASL is enabled and the build returns a configuration with an error other
  than the version error, or with none, the enable and handshake flags are both set.
\<close>

theorem newKafkaConfig_sasl_flags:
  "(saslEnabled c \<longleftrightarrow>
      \<not> (SASLUsername c = [] \<and> SASLPassword c = [] \<and> SASLMechanism c \<noteq> ''aws-iam''))
   \<and> (SASLUsername c = [] \<and> SASLPassword c = [] \<and> SASLMechanism c = [] \<longrightarrow> \<not> saslEnabled c)
   \<and> (\<not> saslEnabled c \<longrightarrow> newKafkaConfig w c \<noteq> Fatal err)
   \<and> (\<not> saslEnabled c \<and> newKafkaConfig w c = Return (k, e) \<longrightarrow>
        Net_SASL_Enable k = Net_SASL_Enable (sarama_NewConfig w)
        \<and> Net_SASL_Handshake k = Net_SASL_Handshake (sarama_NewConfig w)
        \<and> Net_SASL_Mechanism k = Net_SASL_Mechanism (sarama_NewConfig w)
        \<and> Net_SASL_User k = Net_SASL_User (sarama_NewConfig w)
        \<and> Net_SASL_Password k = Net_SASL_Password (sarama_NewConfig w)
        \<and> Net_SASL_SCRAMClientGeneratorFunc k = Net_SASL_SCRAMClientGeneratorFunc (sarama_NewConfig w)
        \<and> Net_SASL_TokenProvider k = Net_SASL_TokenProvider (sarama_NewConfig w))
   \<and> (saslEnabled c \<and> newKafkaConfig w c = Return (k, e) \<and> e \<noteq> Some UnsupportedVersion \<longrightarrow>
        Net_SASL_Enable k \<and> Net_SASL_Handshake k)"
proof -
  have p1: "saslEnabled c \<longleftrightarrow>
      \<not> (SASLUsername c = [] \<and> SASLPassword c = [] \<and> SASLMechanism c \<noteq> ''aws-iam'')"
    by (rule saslEnabled_iff)
  have p2: "SASLUsername c = [] \<and> SASLPassword c = [] \<and> SASLMechanism c = [] \<longrightarrow> \<not> saslEnabled c"
    by (simp add: saslEnabled_def)
  have p3: "\<not> saslEnabled c \<longrightarrow> newKafkaConfig w c \<noteq> Fatal err"
    by (simp add: newKafkaConfig_def saslConfig_disabled split: option.splits)
  have p4: "\<not> saslEnabled c \<and> newKafkaConfig w c = Return (k, e) \<longrightarrow>
        Net_SASL_Enable k = Net_SASL_Enable (sarama_NewConfig w)
        \<and> Net_SASL_Handshake k = Net_SASL_Handshake (sarama_NewConfig w)
        \<and> Net_SASL_Mechanism k = Net_SASL_Mechanism (sarama_NewConfig w)
        \<and> Net_SASL_User k = Net_SASL_User (sarama_NewConfig w)
        \<and> Net_SASL_Password k = Net_SASL_Password (sarama_NewConfig w)
        \<and> Net_SASL_SCRAMClientGeneratorFunc k = Net_SASL_SCRAMClientGeneratorFunc (sarama_NewConfig w)
        \<and> Net_SASL_TokenProvider k = Net_SASL_TokenProvider (sarama_NewConfig w)"
  proof
    assume a: "\<not> saslEnabled c \<and> newKafkaConfig w c = Return (k, e)"
    then have r: "newKafkaConfig w c = Return (k, e)" and d: "\<not> saslEnabled c"
      by simp_all
    from newKafkaConfig_Return [OF r]
    show "Net_SASL_Enable k = Net_SASL_Enable (sarama_NewConfig w)
        \<and> Net_SASL_Handshake k = Net_SASL_Handshake (sarama_NewConfig w)
        \<and> Net_SASL_Mechanism k = Net_SASL_Mechanism (sarama_NewConfig w)
        \<and> Net_SASL_User k = Net_SASL_User (sarama_NewConfig w)
        \<and> Net_SASL_Password k = Net_SASL_Password (sarama_NewConfig w)
        \<and> Net_SASL_SCRAMClientGeneratorFunc k = Net_SASL_SCRAMClientGeneratorFunc (sarama_NewConfig w)
        \<and> Net_SASL_TokenProvider k = Net_SASL_TokenProvider (sarama_NewConfig w)"
    proof
      assume "kafkaVersion w c = None \<and> k = sarama_NewConfig w \<and> e = Some UnsupportedVersion"
      then show ?thesis by simp
    next
      assume "\<exists>v k1. kafkaVersion w c = Some v \<and> saslConfig w c (baseConfig w c v) = Return k1
          \<and> tlsConfig w c k1 = (k, e)"
      then obtain v k1 where s: "saslConfig w c (baseConfig w c v) = Return k1"
        and t: "tlsConfig w c k1 = (k, e)"
        by blast
      from s d have k1: "k1 = baseConfig w c v"
        by (simp add: saslConfig_disabled)
      from t have "k = fst (tlsConfig w c k1)"
        by simp
      then show ?thesis
        by (simp add: k1 tlsConfig_keeps baseConfig_keeps)
    qed
  qed
  have p5: "saslEnabled c \<and> newKafkaConfig w c = Return (k, e) \<and> e \<noteq> Some UnsupportedVersion \<longrightarrow>
        Net_SASL_Enable k \<and> Net_SASL_Handshake k"
  proof
    assume a: "saslEnabled c \<and> newKafkaConfig w c = Return (k, e) \<and> e \<noteq> Some UnsupportedVersion"
    then have r: "newKafkaConfig w c = Return (k, e)" and en: "saslEnabled c"
      and e: "e \<noteq> Some UnsupportedVersion"
      by simp_all
    from newKafkaConfig_Return [OF r] e
    obtain v k1 where s: "saslConfig w c (baseConfig w c v) = Return k1"
      and t: "tlsConfig w c k1 = (k, e)"
      by blast
    from t have "k = fst (tlsConfig w c k1)"
      by simp
    with saslConfig_enabled_flags [OF en s]
    show "Net_SASL_Enable k \<and> Net_SASL_Handshake k"
      by (simp add: tlsConfig_keeps)
  qed
  show ?thesis
    by (rule conjI, fact p1, rule conjI, fact p2, rule conjI, fact p3, rule conjI, fact p4, fact p5)
qed

theorem newKafkaConfig_sasl_flags_witness:
  "\<not> saslEnabled emptyConfig
   \<and> newKafkaConfig world0 emptyConfig \<noteq> Fatal UnknownMechanism
   \<and> saslEnabled (emptyConfig\<lparr>SASLMechanism := ''plain'', SASLUsername := ''alice'', SASLPassword := ''pw''\<rparr>)
   \<and> newKafkaConfig world0 (emptyConfig\<lparr>SASLMechanism := ''plain'', SASLUsername := ''alice'', SASLPassword := ''pw''\<rparr>)
       = Return ((baseConfig world0 emptyConfig V2_7_0_0)
                   \<lparr>Net_SASL_Enable := True, Net_SASL_Handshake := True,
                    Net_SASL_User := ''alice'', Net_SASL_Password := ''pw''\<rparr>, None)
   \<and> Net_SASL_Enable ((baseConfig world0 emptyConfig V2_7_0_0)
                   \<lparr>Net_SASL_Enable := True, Net_SASL_Handshake := True,
                    Net_SASL_User := ''alice'', Net_SASL_Password := ''pw''\<rparr>)
   \<and> Net_SASL_Handshake ((baseConfig world0 emptyConfig V2_7_0_0)
                   \<lparr>Net_SASL_Enable := True, Net_SASL_Handshake := True,
                    Net_SASL_User := ''alice'', Net_SASL_Password := ''pw''\<rparr>)"
proof -
  let ?c = "emptyConfig\<lparr>SASLMechanism := ''plain'', SASLUsername := ''alice'', SASLPassword := ''pw''\<rparr>"
  let ?k = "(baseConfig world0 emptyConfig V2_7_0_0)
                   \<lparr>Net_SASL_Enable := True, Net_SASL_Handshake := True,
                    Net_SASL_User := ''alice'', Net_SASL_Password := ''pw''\<rparr>"
  note t = newKafkaConfig_sasl_flags
  have e0: "SASLUsername emptyConfig = [] \<and> SASLPassword emptyConfig = [] \<and> SASLMechanism emptyConfig = []"
    by (simp add: emptyConfig_def)
  have d0: "\<not> saslEnabled emptyConfig"
    by (rule t [THEN conjunct2, THEN conjunct1, THEN mp, OF e0])
  have f0: "newKafkaConfig world0 emptyConfig \<noteq> Fatal UnknownMechanism"
    by (rule t [THEN conjunct2, THEN conjunct2, THEN conjunct1, THEN mp, OF d0])
  have en: "saslEnabled ?c"
    by (simp add: saslEnabled_def)
  have ev: "newKafkaConfig world0 ?c = Return (?k, None)"
    by (simp add: newKafkaConfig_def kafkaVersion_def saslConfig_def saslMechanism_def tlsConfig_def
        saslEnabled_def baseConfig_def emptyConfig_def)
  have fl: "Net_SASL_Enable ?k \<and> Net_SASL_Handshake ?k"
    by (rule t [THEN conjunct2, THEN conjunct2, THEN conjunct2, THEN conjunct2, THEN mp, of ?c world0 ?k None])
      (simp add: en ev)
  from d0 f0 en ev fl [THEN conjunct1] fl [THEN conjunct2] show ?thesis
    by (intro conjI)
qed

text \<open>
  Claim C2, as stated, fails: the mechanism name is looked at only when SASL is
  enabled. With the mechanism \<^verbatim>\<open>bogus\<close> and no username and no password the build
  returns a configuration without error, the same one as for the mechanism
  \<^verbatim>\<open>plain\<close>.
\<close>

theorem newKafkaConfig_unknown_mechanism_counterexample:
  "newKafkaConfig world0 (emptyConfig\<lparr>SASLMechanism := ''bogus''\<rparr>)
     = Return (baseConfig world0 (emptyConfig\<lparr>SASLMechanism := ''bogus''\<rparr>) V2_7_0_0, None)
   \<and> newKafkaConfig world0 (emptyConfig\<lparr>SASLMechanism := ''bogus''\<rparr>)
     = newKafkaConfig world0 (emptyConfig\<lparr>SASLMechanism := ''plain''\<rparr>)"
  by (simp add: newKafkaConfig_def kafkaVersion_def saslConfig_def tlsConfig_def saslEnabled_def
      baseConfig_def emptyConfig_def world0_simps saramaDefaults0_def)

text \<open>
  Claim C2, amended. When SASL is enabled (a username or a password is given) and the
  mechanism name is none of plain, scram-sha256, scram-sha512, aws-iam and oauthbearer,
  the build never returns a configuration without error: it ends the process with
  \<open>UnknownMechanism\<close>, unless the version string has already failed to parse, in
  which case the version error is returned.
\<close>

theorem newKafkaConfig_unknown_mechanism:
  "saslEnabled c \<Longrightarrow>
   SASLMechanism c \<notin> {''plain'', ''scram-sha256'', ''scram-sha512'', ''aws-iam'', ''oauthbearer''} \<Longrightarrow>
     (kafkaVersion w c \<noteq> None \<longrightarrow> newKafkaConfig w c = Fatal UnknownMechanism)
   \<and> (kafkaVersion w c = None \<longrightarrow>
        newKafkaConfig w c = Return (sarama_NewConfig w, Some UnsupportedVersion))
   \<and> newKafkaConfig w c \<noteq> Return (k, None)"
  by (auto simp: newKafkaConfig_def saslConfig_def saslMechanism_unknown split: option.splits)

theorem newKafkaConfig_unknown_mechanism_witness:
  "newKafkaConfig world0 (emptyConfig\<lparr>SASLMechanism := ''bogus'', SASLUsername := ''alice''\<rparr>)
     = Fatal UnknownMechanism
   \<and> newKafkaConfig world0
       (emptyConfig\<lparr>SASLMechanism := ''bogus'', SASLUsername := ''alice'', KafkaVersion := ''x.y''\<rparr>)
     = Return (saramaDefaults0, Some UnsupportedVersion)"
proof -
  let ?c = "emptyConfig\<lparr>SASLMechanism := ''bogus'', SASLUsername := ''alice''\<rparr>"
  let ?d = "emptyConfig\<lparr>SASLMechanism := ''bogus'', SASLUsername := ''alice'', KafkaVersion := ''x.y''\<rparr>"
  have en: "saslEnabled ?c" "saslEnabled ?d"
    by (simp_all add: saslEnabled_def)
  have m: "SASLMechanism ?c \<notin> {''plain'', ''scram-sha256'', ''scram-sha512'', ''aws-iam'', ''oauthbearer''}"
    "SASLMechanism ?d \<notin> {''plain'', ''scram-sha256'', ''scram-sha512'', ''aws-iam'', ''oauthbearer''}"
    by simp_all
  have v: "kafkaVersion world0 ?c \<noteq> None" "kafkaVersion world0 ?d = None"
    by (simp_all add: kafkaVersion_def emptyConfig_def world0_def)
  have a: "newKafkaConfig world0 ?c = Fatal UnknownMechanism"
    by (rule newKafkaConfig_unknown_mechanism [OF en(1) m(1), THEN conjunct1, THEN mp, OF v(1)])
  have b: "newKafkaConfig world0 ?d = Return (sarama_NewConfig world0, Some UnsupportedVersion)"
    by (rule newKafkaConfig_unknown_mechanism [OF en(2) m(2), THEN conjunct2, THEN conjunct1, THEN mp, OF v(2)])
  from a b show ?thesis
    by (simp add: world0_simps)
qed

text \<open>
  Claim C7, as stated, fails for oauthbearer: without a username and a password SASL is
  disabled, the token URL is never looked at, and the build returns a configuration
  without error although neither the field nor \<^verbatim>\<open>TOKEN_URL\<close> is set.
\<close>

theorem newKafkaConfig_missing_parameter_counterexample:
  "newKafkaConfig world0 (emptyConfig\<lparr>SASLMechanism := ''oauthbearer''\<rparr>)
     = Return (baseConfig world0 (emptyConfig\<lparr>SASLMechanism := ''oauthbearer''\<rparr>) V2_7_0_0, None)
   \<and> SASLTokenUrl (emptyConfig\<lparr>SASLMechanism := ''oauthbearer''\<rparr>) = []
   \<and> os_Getenv world0 ''TOKEN_URL'' = []"
  by (simp add: newKafkaConfig_def kafkaVersion_def saslConfig_def tlsConfig_def saslEnabled_def
      baseConfig_def emptyConfig_def world0_simps saramaDefaults0_def)

text \<open>
  Claim C7, amended. If the mechanism is aws-iam and both the region field and
  \<^verbatim>\<open>AWS_REGION\<close> are empty, or the mechanism is oauthbearer, a username or a password
  is given, and both the token URL field and \<^verbatim>\<open>TOKEN_URL\<close> are empty, then the build
  never returns a configuration without error: it ends the process with
  \<open>MissingRequiredParameter\<close>, unless the version string has already failed to parse,
  in which case the version error is returned.
\<close>

theorem newKafkaConfig_missing_parameter:
  "(SASLMechanism c = ''aws-iam'' \<and> SASLAWSRegion c = [] \<and> os_Getenv w ''AWS_REGION'' = [])
   \<or> (SASLMechanism c = ''oauthbearer'' \<and> SASLTokenUrl c = [] \<and> os_Getenv w ''TOKEN_URL'' = []
        \<and> (SASLUsername c \<noteq> [] \<or> SASLPassword c \<noteq> [])) \<Longrightarrow>
     (kafkaVersion w c \<noteq> None \<longrightarrow> newKafkaConfig w c = Fatal MissingRequiredParameter)
   \<and> (kafkaVersion w c = None \<longrightarrow>
        newKafkaConfig w c = Return (sarama_NewConfig w, Some UnsupportedVersion))
   \<and> newKafkaConfig w c \<noteq> Return (k, None)"
proof -
  assume a: "(SASLMechanism c = ''aws-iam'' \<and> SASLAWSRegion c = [] \<and> os_Getenv w ''AWS_REGION'' = [])
   \<or> (SASLMechanism c = ''oauthbearer'' \<and> SASLTokenUrl c = [] \<and> os_Getenv w ''TOKEN_URL'' = []
        \<and> (SASLUsername c \<noteq> [] \<or> SASLPassword c \<noteq> []))"
  then have en: "saslEnabled c"
    by (auto simp: saslEnabled_def)
  from a have "saslMechanism w c k' = Fatal MissingRequiredParameter" for k'
    by (auto simp: saslMechanism_missing_region saslMechanism_missing_tokenUrl)
  with en have "saslConfig w c k' = Fatal MissingRequiredParameter" for k'
    by (simp add: saslConfig_enabled_Fatal)
  then show ?thesis
    by (auto simp: newKafkaConfig_def split: option.splits)
qed

theorem newKafkaConfig_missing_parameter_witness:
  "newKafkaConfig world0 (emptyConfig\<lparr>SASLMechanism := ''aws-iam''\<rparr>) = Fatal MissingRequiredParameter
   \<and> newKafkaConfig world0 (emptyConfig\<lparr>SASLMechanism := ''oauthbearer'', SASLUsername := ''id''\<rparr>)
       = Fatal MissingRequiredParameter"
proof -
  let ?c = "emptyConfig\<lparr>SASLMechanism := ''aws-iam''\<rparr>"
  let ?d = "emptyConfig\<lparr>SASLMechanism := ''oauthbearer'', SASLUsername := ''id''\<rparr>"
  have hc: "(SASLMechanism ?c = ''aws-iam'' \<and> SASLAWSRegion ?c = [] \<and> os_Getenv world0 ''AWS_REGION'' = [])
   \<or> (SASLMechanism ?c = ''oauthbearer'' \<and> SASLTokenUrl ?c = [] \<and> os_Getenv world0 ''TOKEN_URL'' = []
        \<and> (SASLUsername ?c \<noteq> [] \<or> SASLPassword ?c \<noteq> []))"
    by (simp add: emptyConfig_def world0_simps)
  have hd: "(SASLMechanism ?d = ''aws-iam'' \<and> SASLAWSRegion ?d = [] \<and> os_Getenv world0 ''AWS_REGION'' = [])
   \<or> (SASLMechanism ?d = ''oauthbearer'' \<and> SASLTokenUrl ?d = [] \<and> os_Getenv world0 ''TOKEN_URL'' = []
        \<and> (SASLUsername ?d \<noteq> [] \<or> SASLPassword ?d \<noteq> []))"
    by (simp add: emptyConfig_def world0_simps)
  have v: "kafkaVersion world0 ?c \<noteq> None" "kafkaVersion world0 ?d \<noteq> None"
    by (simp_all add: kafkaVersion_def emptyConfig_def)
  have a: "newKafkaConfig world0 ?c = Fatal MissingRequiredParameter"
    by (rule newKafkaConfig_missing_parameter [OF hc, THEN conjunct1, THEN mp, OF v(1)])
  have b: "newKafkaConfig world0 ?d = Fatal MissingRequiredParameter"
    by (rule newKafkaConfig_missing_parameter [OF hd, THEN conjunct1, THEN mp, OF v(2)])
  from a b show ?thesis
    by (intro conjI)
qed

text \<open>
  Claim C3, as stated, fails: the projection also replaces the client key, which is
  none of the password, the passphrase and the AWS secrets, so not every other field is
  identical to the source.
\<close>

theorem copyWithMaskedSensitiveValues_other_fields_counterexample:
  "ClientCertKey (copyWithMaskedSensitiveValues (emptyConfig\<lparr>ClientCertKey := ''/etc/kafka/client.key''\<rparr>))
     = ''*****''
   \<and> ClientCertKey (copyWithMaskedSensitiveValues (emptyConfig\<lparr>ClientCertKey := ''/etc/kafka/client.key''\<rparr>))
     \<noteq> ClientCertKey (emptyConfig\<lparr>ClientCertKey := ''/etc/kafka/client.key''\<rparr>)"
  by (simp add: copyWithMaskedSensitiveValues_def)

text \<open>
  Claim C3, amended. The projection holds the marker \<^verbatim>\<open>*****\<close> in five fields whatever
  the source holds there: the client key, the key passphrase, the SASL password, the
  AWS external id and the AWS secret key; its result does not depend on the source's
  values of these five. Every other field except the AWS session token is the one of
  the source. Nothing is stated here about the AWS session token.
\<close>

theorem copyWithMaskedSensitiveValues_fields:
  "ClientCertKey (copyWithMaskedSensitiveValues c) = ''*****''
   \<and> ClientCertKeyPassphrase (copyWithMaskedSensitiveValues c) = ''*****''
   \<and> SASLPassword (copyWithMaskedSensitiveValues c) = ''*****''
   \<and> SASLAWSExternalId (copyWithMaskedSensitiveValues c) = ''*****''
   \<and> SASLAWSSecretKey (copyWithMaskedSensitiveValues c) = ''*****''
   \<and> BootstrapServers (copyWithMaskedSensitiveValues c) = BootstrapServers c
   \<and> Timeout (copyWithMaskedSensitiveValues c) = Timeout c
   \<and> CACert (copyWithMaskedSensitiveValues c) = CACert c
   \<and> ClientCert (copyWithMaskedSensitiveValues c) = ClientCert c
   \<and> KafkaVersion (copyWithMaskedSensitiveValues c) = KafkaVersion c
   \<and> TLSEnabled (copyWithMaskedSensitiveValues c) = TLSEnabled c
   \<and> SkipTLSVerify (copyWithMaskedSensitiveValues c) = SkipTLSVerify c
   \<and> SASLUsername (copyWithMaskedSensitiveValues c) = SASLUsername c
   \<and> SASLMechanism (copyWithMaskedSensitiveValues c) = SASLMechanism c
   \<and> SASLAWSContainerAuthorizationTokenFile (copyWithMaskedSensitiveValues c)
       = SASLAWSContainerAuthorizationTokenFile c
   \<and> SASLAWSContainerCredentialsFullUri (copyWithMaskedSensitiveValues c)
       = SASLAWSContainerCredentialsFullUri c
   \<and> SASLAWSRegion (copyWithMaskedSensitiveValues c) = SASLAWSRegion c
   \<and> SASLAWSRoleArn (copyWithMaskedSensitiveValues c) = SASLAWSRoleArn c
   \<and> SASLAWSProfile (copyWithMaskedSensitiveValues c) = SASLAWSProfile c
   \<and> SASLAWSAccessKey (copyWithMaskedSensitiveValues c) = SASLAWSAccessKey c
   \<and> SASLAWSCredsDebug (copyWithMaskedSensitiveValues c) = SASLAWSCredsDebug c
   \<and> SASLTokenUrl (copyWithMaskedSensitiveValues c) = SASLTokenUrl c
   \<and> SASLAWSSharedConfigFiles (copyWithMaskedSensitiveValues c) = SASLAWSSharedConfigFiles c
   \<and> SASLOAuthScopes (copyWithMaskedSensitiveValues c) = SASLOAuthScopes c
   \<and> copyWithMaskedSensitiveValues
       (c\<lparr>ClientCertKey := key, ClientCertKeyPassphrase := passphrase, SASLPassword := password,
          SASLAWSExternalId := externalId, SASLAWSSecretKey := secretKey\<rparr>)
     = copyWithMaskedSensitiveValues c"
  by (simp add: copyWithMaskedSensitiveValues_def)

subsection \<open>The credential token providers\<close>

lemma Token_hit:
  "cached_token_usable currentTime p \<Longrightarrow>
     oauthbearerTokenProvider_Token currentTime (p, ep) = ((\<lparr>Token = token p\<rparr>, None), p, ep)"
  by (simp add: oauthbearerTokenProvider_Token_def cached_token_usable_def)

lemma Token_miss:
  "\<not> cached_token_usable currentTime p \<Longrightarrow>
     oauthbearerTokenProvider_Token currentTime (p, ep) =
       (case responses ep (oauth2Config p) (exchanges ep) of
          None \<Rightarrow> ((\<lparr>Token = []\<rparr>, Some CredentialResolutionFailed), p, ep\<lparr>exchanges := Suc (exchanges ep)\<rparr>)
        | Some tok \<Rightarrow>
            ((\<lparr>Token = AccessToken tok\<rparr>, None),
             p\<lparr>token := AccessToken tok, tokenExpiration := Expiry tok\<rparr>,
             ep\<lparr>exchanges := Suc (exchanges ep)\<rparr>))"
  by (auto simp: oauthbearerTokenProvider_Token_def cached_token_usable_def oauth2Config_Token_def
      split: option.splits)

lemma Token_exchanges:
  "exchanges (snd (snd (oauthbearerTokenProvider_Token t s)))
     = exchanges (snd s) + (if cached_token_usable t (fst s) then 0 else 1)"
  by (cases s) (simp add: Token_hit Token_miss split: option.splits)

lemma Token_calls_exchanges:
  "exchanges (snd (snd (Token_calls ts s))) = exchanges (snd s) + cache_misses ts s"
proof (induction ts arbitrary: s)
  case Nil
  then show ?case by simp
next
  case (Cons t ts)
  obtain r s' where step: "oauthbearerTokenProvider_Token t s = (r, s')"
    by (cases "oauthbearerTokenProvider_Token t s")
  obtain rs s'' where rest: "Token_calls ts s' = (rs, s'')"
    by (cases "Token_calls ts s'")
  have "exchanges (snd s'') = exchanges (snd s') + cache_misses ts s'"
    using Cons.IH [of s'] rest by simp
  moreover have "exchanges (snd s') = exchanges (snd s) + (if cached_token_usable t (fst s) then 0 else 1)"
    using Token_exchanges [of t s] step by simp
  ultimately show ?case
    using step rest by simp
qed

text \<open>
  Claim C6. A call that finds a non-empty cached token whose expiry is more than two
  seconds after the current time returns that token and leaves the provider and the
  endpoint as they were: no exchange is made. Every other call makes exactly one
  exchange; when the exchange succeeds the call stores the new token with its expiry
  and returns it, when it fails the call returns the error and keeps the provider. The
  provider and the endpoint are arbitrary, so this holds at every call of every
  sequence; over a whole sequence the number of exchanges made is the number of calls
  that found no usable cached token.
\<close>

theorem oauthbearerTokenProvider_Token_cache:
  "(token p \<noteq> [] \<and> 2 * time_Second < tokenExpiration p - currentTime \<longrightarrow>
      oauthbearerTokenProvider_Token currentTime (p, ep) = ((\<lparr>Token = token p\<rparr>, None), p, ep))
   \<and> (\<not> (token p \<noteq> [] \<and> 2 * time_Second < tokenExpiration p - currentTime) \<longrightarrow>
        exchanges (snd (snd (oauthbearerTokenProvider_Token currentTime (p, ep)))) = Suc (exchanges ep)
        \<and> (responses ep (oauth2Config p) (exchanges ep) = Some tok \<longrightarrow>
             oauthbearerTokenProvider_Token currentTime (p, ep) =
               ((\<lparr>Token = AccessToken tok\<rparr>, None),
                p\<lparr>token := AccessToken tok, tokenExpiration := Expiry tok\<rparr>,
                ep\<lparr>exchanges := Suc (exchanges ep)\<rparr>))
        \<and> (responses ep (oauth2Config p) (exchanges ep) = None \<longrightarrow>
             oauthbearerTokenProvider_Token currentTime (p, ep) =
               ((\<lparr>Token = []\<rparr>, Some CredentialResolutionFailed), p,
                ep\<lparr>exchanges := Suc (exchanges ep)\<rparr>)))
   \<and> exchanges (snd (snd (Token_calls ts (p, ep)))) = exchanges ep + cache_misses ts (p, ep)"
proof -
  have hit: "token p \<noteq> [] \<and> 2 * time_Second < tokenExpiration p - currentTime \<longrightarrow>
      oauthbearerTokenProvider_Token currentTime (p, ep) = ((\<lparr>Token = token p\<rparr>, None), p, ep)"
    by (simp add: Token_hit cached_token_usable_def)
  have miss: "\<not> (token p \<noteq> [] \<and> 2 * time_Second < tokenExpiration p - currentTime) \<longrightarrow>
        exchanges (snd (snd (oauthbearerTokenProvider_Token currentTime (p, ep)))) = Suc (exchanges ep)
        \<and> (responses ep (oauth2Config p) (exchanges ep) = Some tok \<longrightarrow>
             oauthbearerTokenProvider_Token currentTime (p, ep) =
               ((\<lparr>Token = AccessToken tok\<rparr>, None),
                p\<lparr>token := AccessToken tok, tokenExpiration := Expiry tok\<rparr>,
                ep\<lparr>exchanges := Suc (exchanges ep)\<rparr>))
        \<and> (responses ep (oauth2Config p) (exchanges ep) = None \<longrightarrow>
             oauthbearerTokenProvider_Token currentTime (p, ep) =
               ((\<lparr>Token = []\<rparr>, Some CredentialResolutionFailed), p,
                ep\<lparr>exchanges := Suc (exchanges ep)\<rparr>))"
  proof
    assume "\<not> (token p \<noteq> [] \<and> 2 * time_Second < tokenExpiration p - currentTime)"
    then have n: "\<not> cached_token_usable currentTime p"
      by (simp add: cached_token_usable_def)
    show "exchanges (snd (snd (oauthbearerTokenProvider_Token currentTime (p, ep)))) = Suc (exchanges ep)
        \<and> (responses ep (oauth2Config p) (exchanges ep) = Some tok \<longrightarrow>
             oauthbearerTokenProvider_Token currentTime (p, ep) =
               ((\<lparr>Token = AccessToken tok\<rparr>, None),
                p\<lparr>token := AccessToken tok, tokenExpiration := Expiry tok\<rparr>,
                ep\<lparr>exchanges := Suc (exchanges ep)\<rparr>))
        \<and> (responses ep (oauth2Config p) (exchanges ep) = None \<longrightarrow>
             oauthbearerTokenProvider_Token currentTime (p, ep) =
               ((\<lparr>Token = []\<rparr>, Some CredentialResolutionFailed), p,
                ep\<lparr>exchanges := Suc (exchanges ep)\<rparr>))"
      by (simp add: Token_miss [OF n] split: option.splits)
  qed
  have seq: "exchanges (snd (snd (Token_calls ts (p, ep)))) = exchanges ep + cache_misses ts (p, ep)"
    using Token_calls_exchanges [of ts "(p, ep)"] by simp
  show ?thesis
    by (rule conjI, fact hit, rule conjI, fact miss, fact seq)
qed

theorem oauthbearerTokenProvider_Token_cache_witness:
  "oauthbearerTokenProvider_Token 0 (provider0, endpoint0)
     = ((\<lparr>Token = ''tok''\<rparr>, None),
        provider0\<lparr>token := ''tok'', tokenExpiration := 10000000000\<rparr>,
        endpoint0\<lparr>exchanges := Suc 0\<rparr>)
   \<and> oauthbearerTokenProvider_Token 5000000000
       (provider0\<lparr>token := ''tok'', tokenExpiration := 10000000000\<rparr>, endpoint0\<lparr>exchanges := Suc 0\<rparr>)
     = ((\<lparr>Token = ''tok''\<rparr>, None),
        provider0\<lparr>token := ''tok'', tokenExpiration := 10000000000\<rparr>,
        endpoint0\<lparr>exchanges := Suc 0\<rparr>)
   \<and> oauthbearerTokenProvider_Token 9000000000
       (provider0\<lparr>token := ''tok'', tokenExpiration := 10000000000\<rparr>, endpoint0\<lparr>exchanges := Suc 0\<rparr>)
     = ((\<lparr>Token = ''tok+''\<rparr>, None),
        provider0\<lparr>token := ''tok+'', tokenExpiration := 110000000000\<rparr>,
        endpoint0\<lparr>exchanges := 2\<rparr>)
   \<and> oauthbearerTokenProvider_Token 0 (provider0, endpointDown)
     = ((\<lparr>Token = []\<rparr>, Some CredentialResolutionFailed), provider0, endpointDown\<lparr>exchanges := Suc 0\<rparr>)
   \<and> exchanges (snd (snd (Token_calls [0, 5000000000, 9000000000] (provider0, endpoint0)))) = 2"
proof -
  let ?p1 = "provider0\<lparr>token := ''tok'', tokenExpiration := 10000000000\<rparr>"
  let ?e1 = "endpoint0\<lparr>exchanges := Suc 0\<rparr>"
  note t = oauthbearerTokenProvider_Token_cache
  have m0: "\<not> (token provider0 \<noteq> [] \<and> 2 * time_Second < tokenExpiration provider0 - 0)"
    by (simp add: provider0_def newOauthbearerTokenProvider_def)
  have r0: "responses endpoint0 (oauth2Config provider0) (exchanges endpoint0)
      = Some \<lparr>AccessToken = ''tok'', Expiry = 10000000000\<rparr>"
    by (simp add: endpoint0_def time_Second_def)
  have a: "oauthbearerTokenProvider_Token 0 (provider0, endpoint0)
     = ((\<lparr>Token = ''tok''\<rparr>, None), ?p1, ?e1)"
    using t [THEN conjunct2, THEN conjunct1, THEN mp, OF m0, THEN conjunct2, THEN conjunct1, THEN mp, OF r0]
    by (simp add: endpoint0_def)
  have h1: "token ?p1 \<noteq> [] \<and> 2 * time_Second < tokenExpiration ?p1 - 5000000000"
    by (simp add: time_Second_def)
  have b: "oauthbearerTokenProvider_Token 5000000000 (?p1, ?e1) = ((\<lparr>Token = ''tok''\<rparr>, None), ?p1, ?e1)"
    using t [THEN conjunct1, THEN mp, OF h1, of ?e1] by simp
  have m2: "\<not> (token ?p1 \<noteq> [] \<and> 2 * time_Second < tokenExpiration ?p1 - 9000000000)"
    by (simp add: time_Second_def)
  have r2: "responses ?e1 (oauth2Config ?p1) (exchanges ?e1)
      = Some \<lparr>AccessToken = ''tok+'', Expiry = 110000000000\<rparr>"
    by (simp add: endpoint0_def time_Second_def)
  have c: "oauthbearerTokenProvider_Token 9000000000 (?p1, ?e1)
     = ((\<lparr>Token = ''tok+''\<rparr>, None),
        provider0\<lparr>token := ''tok+'', tokenExpiration := 110000000000\<rparr>,
        endpoint0\<lparr>exchanges := 2\<rparr>)"
    using t [THEN conjunct2, THEN conjunct1, THEN mp, OF m2, THEN conjunct2, THEN conjunct1, THEN mp, OF r2]
    by simp
  have rd: "responses endpointDown (oauth2Config provider0) (exchanges endpointDown) = None"
    by (simp add: endpointDown_def)
  have d: "oauthbearerTokenProvider_Token 0 (provider0, endpointDown)
     = ((\<lparr>Token = []\<rparr>, Some CredentialResolutionFailed), provider0, endpointDown\<lparr>exchanges := Suc 0\<rparr>)"
    using t [THEN conjunct2, THEN conjunct1, THEN mp, OF m0, THEN conjunct2, THEN conjunct2, THEN mp, OF rd]
    by (simp add: endpointDown_def)
  have u0: "\<not> cached_token_usable 0 provider0"
    using m0 by (simp add: cached_token_usable_def)
  have u1: "cached_token_usable 5000000000 ?p1"
    using h1 by (simp add: cached_token_usable_def)
  have u2: "\<not> cached_token_usable 9000000000 ?p1"
    using m2 by (simp add: cached_token_usable_def)
  have misses: "cache_misses [0, 5000000000, 9000000000] (provider0, endpoint0) = 2"
    by (simp add: a b c u0 u1 u2)
  have x0: "exchanges endpoint0 = 0"
    by (simp add: endpoint0_def)
  have "exchanges (snd (snd (Token_calls [0, 5000000000, 9000000000] (provider0, endpoint0))))
      = exchanges endpoint0 + cache_misses [0, 5000000000, 9000000000] (provider0, endpoint0)"
    by (rule t [THEN conjunct2, THEN conjunct2])
  also have "\<dots> = 2"
    by (simp only: misses x0 add_0)
  finally have e: "exchanges (snd (snd (Token_calls [0, 5000000000, 9000000000] (provider0, endpoint0)))) = 2" .
  from a b c d e show ?thesis
    by (intro conjI)
qed

text \<open>
  Claim C5, as stated, fails in its last part: a role ARN and a profile can both be
  supplied without the role strategy being used, namely when the container token file
  and the credentials URI are supplied too. The one signer call is then the one with
  the container credentials.
\<close>

theorem Config_Token_role_and_profile_counterexample:
  "snd (Config_Token world0
      (emptyConfig\<lparr>SASLAWSContainerAuthorizationTokenFile := ''/var/run/secrets/aws/token'',
                    SASLAWSContainerCredentialsFullUri := ''http://169.254.170.23/v1/credentials'',
                    SASLAWSRoleArn := ''arn:aws:iam::1:role/kafka'',
                    SASLAWSProfile := ''dev''\<rparr>))
   = [GenerateAuthTokenFromCredentialsProvider []
        (endpointcreds_New ''http://169.254.170.23/v1/credentials'' ''container-token'')]"
  by (simp add: Config_Token_def signer_invoke_def emptyConfig_def world0_def files0_def)

text \<open>
  Claim C5, amended. The token operation makes at most one signer call, chosen by the
  first test that holds: the container token file and credentials URI (both given),
  then the role ARN, then the profile (with the shared configuration files when the
  list is given and non-empty, without them otherwise), then the static access key and
  secret key (both given), then the default chain. No call is made only when the
  container token file cannot be read. A role ARN wins over a profile whenever the
  container pair is not supplied.
\<close>

theorem Config_Token_precedence:
  "(SASLAWSContainerAuthorizationTokenFile c \<noteq> [] \<and> SASLAWSContainerCredentialsFullUri c \<noteq> []
      \<and> os_ReadFile w (SASLAWSContainerAuthorizationTokenFile c) = Some tok \<longrightarrow>
      Config_Token w c = signer_invoke w c
        (GenerateAuthTokenFromCredentialsProvider (SASLAWSRegion c)
           (endpointcreds_New (SASLAWSContainerCredentialsFullUri c) tok)))
   \<and> (SASLAWSContainerAuthorizationTokenFile c \<noteq> [] \<and> SASLAWSContainerCredentialsFullUri c \<noteq> []
      \<and> os_ReadFile w (SASLAWSContainerAuthorizationTokenFile c) = None \<longrightarrow>
      Config_Token w c = ((None, Some CredentialResolutionFailed), []))
   \<and> (\<not> (SASLAWSContainerAuthorizationTokenFile c \<noteq> [] \<and> SASLAWSContainerCredentialsFullUri c \<noteq> [])
      \<and> SASLAWSRoleArn c \<noteq> [] \<longrightarrow>
      Config_Token w c = signer_invoke w c
        (GenerateAuthTokenFromRoleWithExternalId (SASLAWSRegion c) (SASLAWSRoleArn c)
           ''terraform-kafka-provider'' (SASLAWSExternalId c)))
   \<and> (\<not> (SASLAWSContainerAuthorizationTokenFile c \<noteq> [] \<and> SASLAWSContainerCredentialsFullUri c \<noteq> [])
      \<and> SASLAWSRoleArn c = [] \<and> SASLAWSProfile c \<noteq> [] \<and> SASLAWSSharedConfigFiles c = Some (f # fs) \<longrightarrow>
      Config_Token w c = signer_invoke w c
        (GenerateAuthTokenFromProfileWithSharedConfigFiles (SASLAWSRegion c) (SASLAWSProfile c) (f # fs)))
   \<and> (\<not> (SASLAWSContainerAuthorizationTokenFile c \<noteq> [] \<and> SASLAWSContainerCredentialsFullUri c \<noteq> [])
      \<and> SASLAWSRoleArn c = [] \<and> SASLAWSProfile c \<noteq> []
      \<and> (SASLAWSSharedConfigFiles c = None \<or> SASLAWSSharedConfigFiles c = Some []) \<longrightarrow>
      Config_Token w c = signer_invoke w c
        (GenerateAuthTokenFromProfile (SASLAWSRegion c) (SASLAWSProfile c)))
   \<and> (\<not> (SASLAWSContainerAuthorizationTokenFile c \<noteq> [] \<and> SASLAWSContainerCredentialsFullUri c \<noteq> [])
      \<and> SASLAWSRoleArn c = [] \<and> SASLAWSProfile c = []
      \<and> SASLAWSAccessKey c \<noteq> [] \<and> SASLAWSSecretKey c \<noteq> [] \<longrightarrow>
      Config_Token w c = signer_invoke w c
        (GenerateAuthTokenFromCredentialsProvider (SASLAWSRegion c)
           (NewStaticCredentialsProvider (SASLAWSAccessKey c) (SASLAWSSecretKey c) (SASLAWSToken c))))
   \<and> (\<not> (SASLAWSContainerAuthorizationTokenFile c \<noteq> [] \<and> SASLAWSContainerCredentialsFullUri c \<noteq> [])
      \<and> SASLAWSRoleArn c = [] \<and> SASLAWSProfile c = []
      \<and> \<not> (SASLAWSAccessKey c \<noteq> [] \<and> SASLAWSSecretKey c \<noteq> []) \<longrightarrow>
      Config_Token w c = signer_invoke w c (GenerateAuthToken (SASLAWSRegion c)))
   \<and> length (snd (Config_Token w c)) \<le> 1
   \<and> (snd (Config_Token w c) = [] \<longleftrightarrow>
        SASLAWSContainerAuthorizationTokenFile c \<noteq> [] \<and> SASLAWSContainerCredentialsFullUri c \<noteq> []
        \<and> os_ReadFile w (SASLAWSContainerAuthorizationTokenFile c) = None)"
proof -
  have len: "length (snd (signer_invoke w c call)) = 1" for call
    by (simp add: signer_invoke_def split: prod.splits)
  have ne: "snd (signer_invoke w c call) \<noteq> []" for call
    by (simp add: signer_invoke_def split: prod.splits)
  have p8: "length (snd (Config_Token w c)) \<le> 1"
    by (simp add: Config_Token_def len split: option.splits list.splits)
  have p9: "snd (Config_Token w c) = [] \<longleftrightarrow>
        SASLAWSContainerAuthorizationTokenFile c \<noteq> [] \<and> SASLAWSContainerCredentialsFullUri c \<noteq> []
        \<and> os_ReadFile w (SASLAWSContainerAuthorizationTokenFile c) = None"
    by (simp add: Config_Token_def ne split: option.splits list.splits)
  show ?thesis
    by (intro conjI impI p8 p9) (auto simp: Config_Token_def)
qed

theorem Config_Token_precedence_witness:
  "Config_Token world0
      (emptyConfig\<lparr>SASLAWSContainerAuthorizationTokenFile := ''/var/run/secrets/aws/token'',
        SASLAWSContainerCredentialsFullUri := ''http://169.254.170.23/v1/credentials'',
        SASLAWSRoleArn := ''arn:aws:iam::1:role/kafka''\<rparr>)
     = ((Some \<lparr>Token = ''signed-token''\<rparr>, None),
        [GenerateAuthTokenFromCredentialsProvider []
           (endpointcreds_New ''http://169.254.170.23/v1/credentials'' ''container-token'')])
   \<and> Config_Token world0
      (emptyConfig\<lparr>SASLAWSContainerAuthorizationTokenFile := ''/var/run/secrets/aws/missing'',
        SASLAWSContainerCredentialsFullUri := ''http://169.254.170.23/v1/credentials''\<rparr>)
     = ((None, Some CredentialResolutionFailed), [])
   \<and> Config_Token world0
      (emptyConfig\<lparr>SASLAWSRoleArn := ''arn:aws:iam::1:role/kafka'', SASLAWSProfile := ''dev''\<rparr>)
     = ((Some \<lparr>Token = ''signed-token''\<rparr>, None),
        [GenerateAuthTokenFromRoleWithExternalId [] ''arn:aws:iam::1:role/kafka''
           ''terraform-kafka-provider'' []])
   \<and> Config_Token world0
      (emptyConfig\<lparr>SASLAWSProfile := ''dev'', SASLAWSSharedConfigFiles := Some [''/etc/aws/config'']\<rparr>)
     = ((Some \<lparr>Token = ''signed-token''\<rparr>, None),
        [GenerateAuthTokenFromProfileWithSharedConfigFiles [] ''dev'' [''/etc/aws/config'']])
   \<and> Config_Token world0
      (emptyConfig\<lparr>SASLAWSProfile := ''dev'', SASLAWSAccessKey := ''AKIA'', SASLAWSSecretKey := ''s3cr3t''\<rparr>)
     = ((Some \<lparr>Token = ''signed-token''\<rparr>, None), [GenerateAuthTokenFromProfile [] ''dev''])
   \<and> Config_Token world0
      (emptyConfig\<lparr>SASLAWSAccessKey := ''AKIA'', SASLAWSSecretKey := ''s3cr3t''\<rparr>)
     = ((Some \<lparr>Token = ''signed-token''\<rparr>, None),
        [GenerateAuthTokenFromCredentialsProvider [] (NewStaticCredentialsProvider ''AKIA'' ''s3cr3t'' [])])
   \<and> Config_Token world0
      (emptyConfig\<lparr>SASLAWSAccessKey := ''AKIA''\<rparr>)
     = ((Some \<lparr>Token = ''signed-token''\<rparr>, None), [GenerateAuthToken []])"
proof -
  note t = Config_Token_precedence
  let ?c1 = "emptyConfig\<lparr>SASLAWSContainerAuthorizationTokenFile := ''/var/run/secrets/aws/token'',
        SASLAWSContainerCredentialsFullUri := ''http://169.254.170.23/v1/credentials'',
        SASLAWSRoleArn := ''arn:aws:iam::1:role/kafka''\<rparr>"
  have h1: "SASLAWSContainerAuthorizationTokenFile ?c1 \<noteq> [] \<and> SASLAWSContainerCredentialsFullUri ?c1 \<noteq> []
      \<and> os_ReadFile world0 (SASLAWSContainerAuthorizationTokenFile ?c1) = Some ''container-token''"
    by (simp add: emptyConfig_def world0_def files0_def)
  have r1: "Config_Token world0 ?c1
     = ((Some \<lparr>Token = ''signed-token''\<rparr>, None),
        [GenerateAuthTokenFromCredentialsProvider []
           (endpointcreds_New ''http://169.254.170.23/v1/credentials'' ''container-token'')])"
    using t [THEN conjunct1, THEN mp, OF h1]
    by (simp add: signer_invoke_def world0_def emptyConfig_def)
  let ?c2 = "emptyConfig\<lparr>SASLAWSContainerAuthorizationTokenFile := ''/var/run/secrets/aws/missing'',
        SASLAWSContainerCredentialsFullUri := ''http://169.254.170.23/v1/credentials''\<rparr>"
  have h2: "SASLAWSContainerAuthorizationTokenFile ?c2 \<noteq> [] \<and> SASLAWSContainerCredentialsFullUri ?c2 \<noteq> []
      \<and> os_ReadFile world0 (SASLAWSContainerAuthorizationTokenFile ?c2) = None"
    by (simp add: emptyConfig_def world0_def files0_def)
  have r2: "Config_Token world0 ?c2
     = ((None, Some CredentialResolutionFailed), [])"
    using t [THEN conjunct2, THEN conjunct1, THEN mp, OF h2]
    by (simp add: signer_invoke_def world0_def emptyConfig_def)
  let ?c3 = "emptyConfig\<lparr>SASLAWSRoleArn := ''arn:aws:iam::1:role/kafka'', SASLAWSProfile := ''dev''\<rparr>"
  have h3: "\<not> (SASLAWSContainerAuthorizationTokenFile ?c3 \<noteq> [] \<and> SASLAWSContainerCredentialsFullUri ?c3 \<noteq> [])
      \<and> SASLAWSRoleArn ?c3 \<noteq> []"
    by (simp add: emptyConfig_def world0_def files0_def)
  have r3: "Config_Token world0 ?c3
     = ((Some \<lparr>Token = ''signed-token''\<rparr>, None),
        [GenerateAuthTokenFromRoleWithExternalId [] ''arn:aws:iam::1:role/kafka''
           ''terraform-kafka-provider'' []])"
    using t [THEN conjunct2, THEN conjunct2, THEN conjunct1, THEN mp, OF h3]
    by (simp add: signer_invoke_def world0_def emptyConfig_def)
  let ?c4 = "emptyConfig\<lparr>SASLAWSProfile := ''dev'', SASLAWSSharedConfigFiles := Some [''/etc/aws/config'']\<rparr>"
  have h4: "\<not> (SASLAWSContainerAuthorizationTokenFile ?c4 \<noteq> [] \<and> SASLAWSContainerCredentialsFullUri ?c4 \<noteq> [])
      \<and> SASLAWSRoleArn ?c4 = [] \<and> SASLAWSProfile ?c4 \<noteq> []
      \<and> SASLAWSSharedConfigFiles ?c4 = Some (''/etc/aws/config'' # [])"
    by (simp add: emptyConfig_def world0_def files0_def)
  have r4: "Config_Token world0 ?c4
     = ((Some \<lparr>Token = ''signed-token''\<rparr>, None),
        [GenerateAuthTokenFromProfileWithSharedConfigFiles [] ''dev'' [''/etc/aws/config'']])"
    using t [THEN conjunct2, THEN conjunct2, THEN conjunct2, THEN conjunct1, THEN mp, OF h4]
    by (simp add: signer_invoke_def world0_def emptyConfig_def)
  let ?c5 = "emptyConfig\<lparr>SASLAWSProfile := ''dev'', SASLAWSAccessKey := ''AKIA'', SASLAWSSecretKey := ''s3cr3t''\<rparr>"
  have h5: "\<not> (SASLAWSContainerAuthorizationTokenFile ?c5 \<noteq> [] \<and> SASLAWSContainerCredentialsFullUri ?c5 \<noteq> [])
      \<and> SASLAWSRoleArn ?c5 = [] \<and> SASLAWSProfile ?c5 \<noteq> []
      \<and> (SASLAWSSharedConfigFiles ?c5 = None \<or> SASLAWSSharedConfigFiles ?c5 = Some [])"
    by (simp add: emptyConfig_def world0_def files0_def)
  have r5: "Config_Token world0 ?c5
     = ((Some \<lparr>Token = ''signed-token''\<rparr>, None), [GenerateAuthTokenFromProfile [] ''dev''])"
    using t [THEN conjunct2, THEN conjunct2, THEN conjunct2, THEN conjunct2, THEN conjunct1, THEN mp, OF h5]
    by (simp add: signer_invoke_def world0_def emptyConfig_def)
  let ?c6 = "emptyConfig\<lparr>SASLAWSAccessKey := ''AKIA'', SASLAWSSecretKey := ''s3cr3t''\<rparr>"
  have h6: "\<not> (SASLAWSContainerAuthorizationTokenFile ?c6 \<noteq> [] \<and> SASLAWSContainerCredentialsFullUri ?c6 \<noteq> [])
      \<and> SASLAWSRoleArn ?c6 = [] \<and> SASLAWSProfile ?c6 = []
      \<and> SASLAWSAccessKey ?c6 \<noteq> [] \<and> SASLAWSSecretKey ?c6 \<noteq> []"
    by (simp add: emptyConfig_def world0_def files0_def)
  have r6: "Config_Token world0 ?c6
     = ((Some \<lparr>Token = ''signed-token''\<rparr>, None),
        [GenerateAuthTokenFromCredentialsProvider [] (NewStaticCredentialsProvider ''AKIA'' ''s3cr3t'' [])])"
    using t [THEN conjunct2, THEN conjunct2, THEN conjunct2, THEN conjunct2, THEN conjunct2, THEN conjunct1, THEN mp, OF h6]
    by (simp add: signer_invoke_def world0_def emptyConfig_def)
  let ?c7 = "emptyConfig\<lparr>SASLAWSAccessKey := ''AKIA''\<rparr>"
  have h7: "\<not> (SASLAWSContainerAuthorizationTokenFile ?c7 \<noteq> [] \<and> SASLAWSContainerCredentialsFullUri ?c7 \<noteq> [])
      \<and> SASLAWSRoleArn ?c7 = [] \<and> SASLAWSProfile ?c7 = []
      \<and> \<not> (SASLAWSAccessKey ?c7 \<noteq> [] \<and> SASLAWSSecretKey ?c7 \<noteq> [])"
    by (simp add: emptyConfig_def world0_def files0_def)
  have r7: "Config_Token world0 ?c7
     = ((Some \<lparr>Token = ''signed-token''\<rparr>, None), [GenerateAuthToken []])"
    using t [THEN conjunct2, THEN conjunct2, THEN conjunct2, THEN conjunct2, THEN conjunct2, THEN conjunct2, THEN conjunct1, THEN mp, OF h7]
    by (simp add: signer_invoke_def world0_def emptyConfig_def)
  from r1 r2 r3 r4 r5 r6 r7 show ?thesis
    by (intro conjI)
qed

end
